theory Spec2Isabelle
  imports Main "HOL-Library.Word" "HOL-Library.Char_ord" "HOL-Library.List_Lexorder"
begin

section \<open>Basic data\<close>

text \<open>
  Go's \<open>int\<close> is a 64-bit two's complement integer on the platforms the server is built
  for; \<open>+\<close> and \<open>-\<close> wrap around. It is read as signed with \<open>sint\<close>. A Go string is a
  sequence of bytes, so it is a \<open>string\<close> (a list of 8-bit characters) here.
\<close>

type_synonym go_int = "64 word"

text \<open>
  A Go function either returns normally, returns a non-nil \<open>error\<close>, or panics. The error
  carries its message, built the way \<open>errors.Errorf\<close> formats it; the sentinel
  \<open>locate.ErrUnresolvable\<close>, which callers compare by identity, is a value of its own.
\<close>

datatype fault = Error string | ErrUnresolvable | Panic string

text \<open>\<open>ast.Location\<close> and \<open>ast.LocationRange\<close> of go-jsonnet.\<close>

record location =
  Line :: go_int
  Column :: go_int

record locationRange =
  FileName :: string
  Begin :: location
  End :: location

text \<open>\<open>createLoc\<close> builds a location from a line and a column.\<close>

definition createLoc :: "go_int \<Rightarrow> go_int \<Rightarrow> location" where
  "createLoc l c = \<lparr>Line = l, Column = c\<rparr>"

section \<open>locate.findLocation2\<close>

text \<open>
  The scanner is split with \<open>bufio.ScanBytes\<close>, so each \<open>scanner.Scan()\<close> yields the next
  byte of the source. \<open>scanBytes\<close> is the \<open>for scanner.Scan()\<close> loop with the loop
  variables \<open>i\<close>, \<open>row\<close> and \<open>col\<close>: the \<open>switch\<close> has a single arm, for the newline; the
  comparison \<open>pos == i\<close> comes after it. When the scanner is exhausted the loop ends;
  \<open>scanner.Err()\<close> is nil for a reader over a string, and the function returns the
  error of its last line.
\<close>

definition newline :: char where
  "newline = CHR 0x0A"

fun scanBytes :: "go_int \<Rightarrow> string \<Rightarrow> go_int \<Rightarrow> go_int \<Rightarrow> go_int \<Rightarrow> fault + location" where
  "scanBytes pos [] i row col = Inl (Error ''position was not in source'')"
| "scanBytes pos (t # ts) i row col =
     (let row' = (if t = newline then row + 1 else row);
          col' = (if t = newline then 1 else col)
      in if pos = i then Inr (createLoc row' col')
         else scanBytes pos ts (i + 1) row' col')"

definition findLocation2 :: "string \<Rightarrow> go_int \<Rightarrow> fault + location" where
  "findLocation2 source pos = scanBytes pos source 0 1 1"

definition newlines :: "string \<Rightarrow> nat" where
  "newlines bs = length (filter (\<lambda>b. b = newline) bs)"

section \<open>The syntax tree\<close>

text \<open>
  The nodes of go-jsonnet's \<open>ast\<close> package (in the fork that records \<open>FieldLocs\<close>,
  \<open>VarLoc\<close> and \<open>RequiredLocs\<close>) and the two synthetic nodes of \<open>astext\<close>. The kinds that
  the functions below tell apart have a constructor each; every other kind of node is an
  \<open>OtherNode\<close> carrying the name \<open>%T\<close> prints for it and the nodes directly below it.
  \<open>NilNode\<close> is the nil interface value.

  A \<open>*ast.DesugaredObject\<close> is compared by pointer when it is part of a map key, so a
  desugared object carries its address. \<open>FieldLocs\<close> is a Go map whose keys are
  \<open>interface{}\<close>: a string, an \<open>ast.Identifier\<close> or a node. A Go map is ranged over in an
  unspecified order; the maps that the code ranges over are association lists, in the order
  in which the run visits them, so that a statement for every list is a statement for every
  order.
\<close>

datatype 'n fieldKey = KeyString string | KeyIdentifier string | KeyNode 'n

datatype node =
    NilNode
  | LiteralString string locationRange
  | Var string locationRange
  | Index node node locationRange
  | Function funParams node locationRange
  | Local "localBind list" node locationRange
  | DesugaredObject dobj
  | Partial locationRange
  | PartialIndex node locationRange
  | OtherNode string "node list" locationRange
and dobj =
    DObj (objAddr: nat) (Fields: "field list")
         (FieldLocs: "(node fieldKey \<times> locationRange) list") (objLoc: locationRange)
and field =
    DesugaredObjectField (Name: node) (Body: node)
and localBind =
    LocalBind (Variable: string) (bindBody: node) (VarLoc: locationRange)
and funParams =
    Parameters (Required: "string list") (RequiredLocs: "(string \<times> locationRange) list")
               (Optional: "namedParameter list")
and namedParameter =
    NamedParameter (paramName: string) (DefaultArg: node) (paramLoc: locationRange)

text \<open>What \<open>%T\<close> prints for a node.\<close>

fun typeName :: "node \<Rightarrow> string" where
  "typeName NilNode = ''<nil>''"
| "typeName (LiteralString v l) = ''*ast.LiteralString''"
| "typeName (Var i l) = ''*ast.Var''"
| "typeName (Index t i l) = ''*ast.Index''"
| "typeName (Function ps b l) = ''*ast.Function''"
| "typeName (Local bs b l) = ''*ast.Local''"
| "typeName (DesugaredObject ob) = ''*ast.DesugaredObject''"
| "typeName (Partial l) = ''*astext.Partial''"
| "typeName (PartialIndex t l) = ''*astext.PartialIndex''"
| "typeName (OtherNode tn cs l) = tn"

fun keyTypeName :: "node fieldKey \<Rightarrow> string" where
  "keyTypeName (KeyString s) = ''string''"
| "keyTypeName (KeyIdentifier i) = ''ast.Identifier''"
| "keyTypeName (KeyNode n) = typeName n"

text \<open>\<open>Loc()\<close> of a node; the nil interface has none.\<close>

fun nodeLoc :: "node \<Rightarrow> locationRange option" where
  "nodeLoc NilNode = None"
| "nodeLoc (LiteralString v l) = Some l"
| "nodeLoc (Var i l) = Some l"
| "nodeLoc (Index t i l) = Some l"
| "nodeLoc (Function ps b l) = Some l"
| "nodeLoc (Local bs b l) = Some l"
| "nodeLoc (DesugaredObject ob) = Some (objLoc ob)"
| "nodeLoc (Partial l) = Some l"
| "nodeLoc (PartialIndex t l) = Some l"
| "nodeLoc (OtherNode tn cs l) = Some l"

section \<open>Positions of the \<open>position\<close> package\<close>

text \<open>
  Modelled from the spec: the package \<open>pkg/util/position\<close> is not among the sources. Its
  \<open>Position\<close> is a 1-indexed line and column, its \<open>Range\<close> a start and an end position, its
  \<open>Location\<close> a file name and a range (the tests build them with \<open>New\<close>,
  \<open>NewRangeFromCoords\<close> and \<open>NewLocation\<close>); \<open>FromJsonnetRange\<close> and \<open>LocationFromJsonnet\<close>
  copy the coordinates of an \<open>ast.LocationRange\<close>. \<open>Range{}\<close> is the zero value. The
  test \<open>IsInJsonnetRange\<close> and the rendering \<open>String\<close> of a position are parameters of
  the functions that call them.
\<close>

record jposition =
  posLine :: go_int
  posColumn :: go_int

record jrange =
  rangeStart :: jposition
  rangeEnd :: jposition

record jlocation =
  locURI :: string
  locRange :: jrange

definition New :: "go_int \<Rightarrow> go_int \<Rightarrow> jposition" where
  "New l c = \<lparr>posLine = l, posColumn = c\<rparr>"

definition NewRangeFromCoords :: "go_int \<Rightarrow> go_int \<Rightarrow> go_int \<Rightarrow> go_int \<Rightarrow> jrange" where
  "NewRangeFromCoords sl sc el ec = \<lparr>rangeStart = New sl sc, rangeEnd = New el ec\<rparr>"

definition zeroRange :: jrange where
  "zeroRange = NewRangeFromCoords 0 0 0 0"

definition FromJsonnetRange :: "locationRange \<Rightarrow> jrange" where
  "FromJsonnetRange r =
     NewRangeFromCoords (Line (Begin r)) (Column (Begin r)) (Line (End r)) (Column (End r))"

definition LocationFromJsonnet :: "locationRange \<Rightarrow> jlocation" where
  "LocationFromJsonnet r = \<lparr>locURI = FileName r, locRange = FromJsonnetRange r\<rparr>"

definition createRange :: "string \<Rightarrow> go_int \<Rightarrow> go_int \<Rightarrow> go_int \<Rightarrow> go_int \<Rightarrow> locationRange" where
  "createRange filename r1l r1c r2l r2c =
     \<lparr>FileName = filename, Begin = createLoc r1l r1c, End = createLoc r2l r2c\<rparr>"

section \<open>token.objectMapper\<close>

text \<open>
  The mapper's map \<open>m\<close>, from an \<open>objectKey\<close> (the object's pointer and the field's name)
  to a range. A nil map reads as the empty map.
\<close>

type_synonym objectMapper = "nat \<times> string \<rightharpoonup> locationRange"

definition add :: "objectMapper \<Rightarrow> dobj \<Rightarrow> string \<Rightarrow> fault + objectMapper" where
  "add om ob name =
     (case map_of (FieldLocs ob) (KeyString name) of
        None \<Rightarrow> Inl (Error (''could not find location for field '' @ name))
      | Some loc \<Rightarrow> Inr (om((objAddr ob, name) \<mapsto> loc)))"

fun fieldName :: "field \<Rightarrow> fault + string" where
  "fieldName (DesugaredObjectField (LiteralString v l) b) = Inr v"
| "fieldName (DesugaredObjectField n b) = Inl (Error ''field name is not a string'')"

text \<open>The loop of \<open>fieldByName\<close> over \<open>o.Fields\<close>, and the function.\<close>

fun fieldByNameLoop :: "field list \<Rightarrow> string \<Rightarrow> fault + field" where
  "fieldByNameLoop [] name = Inl (Error (''field '' @ name @ '' does not exist''))"
| "fieldByNameLoop (f # fs) name =
     (case fieldName f of
        Inl err \<Rightarrow> Inl err
      | Inr fn \<Rightarrow> if fn = name then Inr f else fieldByNameLoop fs name)"

definition fieldByName :: "dobj \<Rightarrow> string \<Rightarrow> fault + field" where
  "fieldByName ob name = fieldByNameLoop (Fields ob) name"

text \<open>
  \<open>lookup\<close> starts with \<open>name, path := path[0], path[1:]\<close>. On the empty slice both
  operands are out of range, and Go's specification does not fix which is evaluated first.
  The compiler holds the slice expression \<open>path[1:]\<close> in a temporary before it assigns, so
  the run-time error raised is the one of the slice bounds.
\<close>

fun lookup :: "objectMapper \<Rightarrow> dobj \<Rightarrow> string list \<Rightarrow> fault + jlocation" where
  "lookup om ob [] = Inl (Panic ''runtime error: slice bounds out of range [1:0]'')"
| "lookup om ob (name # path) =
     (case om (objAddr ob, name) of
        None \<Rightarrow> Inl (Error (''field '' @ name @ '' does not exist in object''))
      | Some lr \<Rightarrow>
          if path = [] then Inr (LocationFromJsonnet lr)
          else (case fieldByName ob name of
                  Inl err \<Rightarrow> Inl err
                | Inr nested \<Rightarrow>
                    (case Body nested of
                       Local binds body l \<Rightarrow>
                         (case body of
                            DesugaredObject nestedObject \<Rightarrow> lookup om nestedObject path
                          | _ \<Rightarrow> Inl (Error (''expected body to be an object; it was '' @
                                             typeName body)))
                     | _ \<Rightarrow> Inl (Error (''field '' @ name @ '' doesn't have local scope'')))))"

section \<open>token.fieldNameAt\<close>

text \<open>
  The loop of \<open>fieldNameAt\<close> over \<open>o.FieldLocs\<close>, in the order of the run, with the type
  switch on the key: a \<open>string\<close>, a \<open>*ast.Var\<close>, anything else. The function returns three
  values: the name, the range and the error (\<open>None\<close> is nil).
\<close>

fun fieldNameAtLoop ::
  "(jposition \<Rightarrow> locationRange \<Rightarrow> bool) \<Rightarrow> (jposition \<Rightarrow> string) \<Rightarrow>
   (node fieldKey \<times> locationRange) list \<Rightarrow> jposition \<Rightarrow> string \<times> jrange \<times> fault option" where
  "fieldNameAtLoop isIn posString [] pos =
     ([], zeroRange, Some (Error (''position '' @ posString pos @ '' isn't in an object key'')))"
| "fieldNameAtLoop isIn posString ((k, loc) # rest) pos =
     (if isIn pos loc then
        (case k of
           KeyString str \<Rightarrow> (str, FromJsonnetRange loc, None)
         | KeyNode (Var i l) \<Rightarrow> ([], zeroRange, Some (Error ''variable keys are unsupported''))
         | _ \<Rightarrow> ([], zeroRange, Some (Error (''invalid field name type '' @ keyTypeName k))))
      else fieldNameAtLoop isIn posString rest pos)"

definition fieldNameAt ::
  "(jposition \<Rightarrow> locationRange \<Rightarrow> bool) \<Rightarrow> (jposition \<Rightarrow> string) \<Rightarrow>
   dobj \<Rightarrow> jposition \<Rightarrow> string \<times> jrange \<times> fault option" where
  "fieldNameAt isIn posString ob pos = fieldNameAtLoop isIn posString (FieldLocs ob) pos"

section \<open>locate.Locate\<close>

text \<open>
  The token is an \<open>interface{}\<close>. The type switch tells apart the values with a \<open>Loc()\<close>
  method (the nodes), six value types, and everything else; a value of another type is a
  \<open>TokOther\<close> with the name \<open>%T\<close> prints. \<open>ast.ForSpec\<close> is not inspected here.
\<close>

typedecl forSpec

datatype token =
    TokNode node
  | TokDesugaredObjectField field
  | TokForSpec forSpec
  | TokIdentifier string
  | TokLocalBind localBind
  | TokNamedParameter namedParameter
  | TokRequiredParameter string
  | TokOther string

fun tokenTypeName :: "token \<Rightarrow> string" where
  "tokenTypeName (TokNode n) = typeName n"
| "tokenTypeName (TokDesugaredObjectField f) = ''ast.DesugaredObjectField''"
| "tokenTypeName (TokForSpec f) = ''ast.ForSpec''"
| "tokenTypeName (TokIdentifier i) = ''ast.Identifier''"
| "tokenTypeName (TokLocalBind b) = ''ast.LocalBind''"
| "tokenTypeName (TokNamedParameter p) = ''ast.NamedParameter''"
| "tokenTypeName (TokRequiredParameter i) = ''astext.RequiredParameter''"
| "tokenTypeName (TokOther tn) = tn"

text \<open>\<open>locate.Locatable\<close>, as far as \<open>Locate\<close> reads it.\<close>

record locatable =
  Token :: token
  Loc :: locationRange

text \<open>
  The locators for the six value types are other functions of the package \<open>locate\<close>, not
  among the sources: they are parameters.
\<close>

record locators =
  locDesugaredObjectField :: "field \<Rightarrow> locationRange \<Rightarrow> string \<Rightarrow> fault + locationRange"
  locForSpec :: "forSpec \<Rightarrow> locationRange \<Rightarrow> string \<Rightarrow> fault + locationRange"
  locIdentifier :: "string \<Rightarrow> locationRange \<Rightarrow> string \<Rightarrow> fault + locationRange"
  locLocalBind :: "localBind \<Rightarrow> locationRange \<Rightarrow> string \<Rightarrow> fault + locationRange"
  locNamedParameter :: "namedParameter \<Rightarrow> locationRange \<Rightarrow> string \<Rightarrow> fault + locationRange"
  locRequiredParameter :: "string \<Rightarrow> locationRange \<Rightarrow> string \<Rightarrow> fault + locationRange"

datatype logEntry = Warnf string | Dump token

text \<open>
  \<open>parent\<close> is a pointer: \<open>None\<close> is nil, and reading a field through it panics.
  \<open>withParent\<close> is that dereference.
\<close>

definition nilDereference :: fault where
  "nilDereference = Panic ''runtime error: invalid memory address or nil pointer dereference''"

definition withParent ::
  "locatable option \<Rightarrow> (locatable \<Rightarrow> logEntry list \<times> (fault + locationRange)) \<Rightarrow>
   logEntry list \<times> (fault + locationRange)" where
  "withParent parent f = (case parent of None \<Rightarrow> ([], Inl nilDereference) | Some p \<Rightarrow> f p)"

text \<open>
  \<open>Locate\<close> returns what it wrote to the log and its result. The nil interface has no
  \<open>Loc()\<close> method and falls to the default arm, as a value of any other type does.
\<close>

fun Locate ::
  "locators \<Rightarrow> token \<Rightarrow> locatable option \<Rightarrow> string \<Rightarrow> logEntry list \<times> (fault + locationRange)" where
  "Locate ls (TokNode n) parent source =
     (case nodeLoc n of
        Some r \<Rightarrow> ([], Inr r)
      | None \<Rightarrow>
          withParent parent (\<lambda>p.
            ([Warnf (''previsiting an unlocatable '' @ typeName n @ '' with parent '' @
                     tokenTypeName (Token p))],
             Inl (Error (''unable to locate '' @ typeName n)))))"
| "Locate ls (TokDesugaredObjectField t) parent source =
     withParent parent (\<lambda>p. ([], locDesugaredObjectField ls t (Loc p) source))"
| "Locate ls (TokForSpec t) parent source =
     withParent parent (\<lambda>p. ([], locForSpec ls t (Loc p) source))"
| "Locate ls (TokIdentifier t) parent source =
     withParent parent (\<lambda>p. ([], locIdentifier ls t (Loc p) source))"
| "Locate ls (TokLocalBind t) parent source =
     withParent parent (\<lambda>p. ([], locLocalBind ls t (Loc p) source))"
| "Locate ls (TokNamedParameter t) parent source =
     withParent parent (\<lambda>p. ([], locNamedParameter ls t (Loc p) source))"
| "Locate ls (TokRequiredParameter t) parent source =
     (if t = ''s''
      then withParent parent (\<lambda>p. ([Dump (Token p)], locRequiredParameter ls t (Loc p) source))
      else withParent parent (\<lambda>p. ([], locRequiredParameter ls t (Loc p) source)))"
| "Locate ls (TokOther tn) parent source =
     withParent parent (\<lambda>p.
       ([Warnf (''previsiting an unlocatable '' @ tn @ '' with parent '' @
                tokenTypeName (Token p))],
        Inl (Error (''unable to locate '' @ tn))))"

section \<open>token.idNode\<close>

text \<open>
  \<open>idNode\<close> calls \<open>s.parent\<close> (a method of the scope), the package's \<open>resolveIndex\<close> on an
  index node and \<open>pos.IsInJsonnetRange\<close>; none is among the sources, and they are the
  parameters \<open>parent\<close>, \<open>indexPath\<close> and \<open>isIn\<close>. The arm for a desugared object calls
  \<open>idNode\<close> on the object's parent, and nothing in the function bounds that recursion:
  the model counts the calls down, and \<open>None\<close> is a run that needs more calls than allowed.
\<close>

text \<open>The two loops of the \<open>*ast.Function\<close> arm and the loop of the \<open>*ast.Local\<close> arm.\<close>

fun requiredAt ::
  "(jposition \<Rightarrow> locationRange \<Rightarrow> bool) \<Rightarrow> jposition \<Rightarrow> (string \<times> locationRange) list \<Rightarrow> string \<Rightarrow> string" where
  "requiredAt isIn pos [] ident = ident"
| "requiredAt isIn pos ((paramID, loc) # rest) ident =
     (if isIn pos loc then paramID else requiredAt isIn pos rest ident)"

fun optionalAt ::
  "(jposition \<Rightarrow> locationRange \<Rightarrow> bool) \<Rightarrow> jposition \<Rightarrow> namedParameter list \<Rightarrow> string \<Rightarrow> string" where
  "optionalAt isIn pos [] ident = ident"
| "optionalAt isIn pos (param # rest) ident =
     (if isIn pos (paramLoc param) then paramName param else optionalAt isIn pos rest ident)"

fun bindAt ::
  "(jposition \<Rightarrow> locationRange \<Rightarrow> bool) \<Rightarrow> jposition \<Rightarrow> localBind list \<Rightarrow> string \<Rightarrow> string" where
  "bindAt isIn pos [] ident = ident"
| "bindAt isIn pos (bind # rest) ident =
     bindAt isIn pos rest (if isIn pos (VarLoc bind) then Variable bind else ident)"

fun idNode ::
  "nat \<Rightarrow> (dobj \<Rightarrow> node) \<Rightarrow> (node \<Rightarrow> string list) \<Rightarrow> (jposition \<Rightarrow> locationRange \<Rightarrow> bool) \<Rightarrow>
   node \<Rightarrow> jposition \<Rightarrow> (fault + string \<times> string list) option" where
  "idNode 0 parent indexPath isIn n pos = None"
| "idNode (Suc calls) parent indexPath isIn n pos =
     (case n of
        DesugaredObject found \<Rightarrow> idNode calls parent indexPath isIn (parent found) pos
      | Function ps b l \<Rightarrow>
          Some (Inr (optionalAt isIn pos (Optional ps)
                       (requiredAt isIn pos (RequiredLocs ps) []), []))
      | Index t i l \<Rightarrow>
          (case indexPath n of
             [] \<Rightarrow> Some (Inl (Panic ''runtime error: index out of range [0] with length 0''))
           | x # xs \<Rightarrow> Some (Inr (x, xs)))
      | Local binds b l \<Rightarrow> Some (Inr (bindAt isIn pos binds [], []))
      | Var i l \<Rightarrow> Some (Inr (i, []))
      | _ \<Rightarrow> Some (Inl (Panic (''unable to find nodes of type '' @ typeName n))))"

section \<open>server.Handler.Handle\<close>

text \<open>
  \<open>Handle\<close> looks the request's method up in the table of operations and runs the
  operation, under a deferred \<open>recover\<close>. What the handler does to the connection and to the
  tracing span is the list of its effects. The operations are not among the sources: the
  table is a parameter, and so are the results of the two replies on the connection. The
  reply to a failed operation is a \<open>jsonrpc2.Error\<close> with the error's message; the check
  after it reads \<open>err\<close>, which is not nil there, so the result of the reply is always logged.
  \<open>req.Params\<close> is a pointer, dereferenced when the method is unknown.
\<close>

datatype 'r effect =
    LogFields string
  | LogError "fault option"
  | Reply 'r
  | ReplyWithError fault

record 'q request =
  Method :: string
  Params :: "string option"
  payload :: 'q

definition handleBody ::
  "(string \<rightharpoonup> ('q request \<Rightarrow> fault + 'r)) \<Rightarrow> (fault \<Rightarrow> fault option) \<Rightarrow> ('r \<Rightarrow> fault option) \<Rightarrow>
   'q request \<Rightarrow> fault + 'r effect list" where
  "handleBody operations replyWithError reply req =
     (case operations (Method req) of
        None \<Rightarrow>
          (case Params req of
             None \<Rightarrow> Inl nilDereference
           | Some ps \<Rightarrow> Inr [LogFields (''unable to handle message type '' @ ps)])
      | Some fn \<Rightarrow>
          (case fn req of
             Inl (Panic r) \<Rightarrow> Inl (Panic r)
           | Inl err \<Rightarrow> Inr [LogError (Some err), ReplyWithError err, LogError (replyWithError err)]
           | Inr response \<Rightarrow>
               (case reply response of
                  None \<Rightarrow> Inr [Reply response]
                | Some err \<Rightarrow> Inr [Reply response, LogError (Some err)])))"

text \<open>
  The deferred function recovers a panic of the body: \<open>Handle\<close> then returns normally.
  In it, \<open>log.Error(err)\<close> is the field constructor of the tracing library, and the field
  it builds is dropped: the recovered run has no effect of its own.
\<close>

definition Handle ::
  "(string \<rightharpoonup> ('q request \<Rightarrow> fault + 'r)) \<Rightarrow> (fault \<Rightarrow> fault option) \<Rightarrow> ('r \<Rightarrow> fault option) \<Rightarrow>
   'q request \<Rightarrow> fault + 'r effect list" where
  "Handle operations replyWithError reply req =
     (case handleBody operations replyWithError reply req of
        Inl (Panic r) \<Rightarrow> Inr []
      | res \<Rightarrow> res)"

section \<open>server.resolveIndex\<close>

text \<open>
  Regular expressions, as far as \<open>reIndex\<close> needs them, and their matching by derivatives.
  \<open>Atom P\<close> is a character class.
\<close>

datatype rexp =
    Empty
  | Eps
  | Atom "char \<Rightarrow> bool"
  | Seq rexp rexp
  | Alt rexp rexp
  | Star rexp

fun nullable :: "rexp \<Rightarrow> bool" where
  "nullable Empty = False"
| "nullable Eps = True"
| "nullable (Atom P) = False"
| "nullable (Seq r s) = (nullable r \<and> nullable s)"
| "nullable (Alt r s) = (nullable r \<or> nullable s)"
| "nullable (Star r) = True"

fun deriv :: "char \<Rightarrow> rexp \<Rightarrow> rexp" where
  "deriv c Empty = Empty"
| "deriv c Eps = Empty"
| "deriv c (Atom P) = (if P c then Eps else Empty)"
| "deriv c (Seq r s) =
     (if nullable r then Alt (Seq (deriv c r) s) (deriv c s) else Seq (deriv c r) s)"
| "deriv c (Alt r s) = Alt (deriv c r) (deriv c s)"
| "deriv c (Star r) = Seq (deriv c r) (Star r)"

fun matches :: "rexp \<Rightarrow> string \<Rightarrow> bool" where
  "matches r [] = nullable r"
| "matches r (c # cs) = matches (deriv c r) cs"

definition Plus :: "rexp \<Rightarrow> rexp" where
  "Plus r = Seq r (Star r)"

text \<open>
  \<open>\w\<close> is \<open>[0-9A-Za-z_]\<close>; the other two classes are the dot and the closers
  \<open>[;\]\)\}]\<close>.
\<close>

definition wordChar :: "char \<Rightarrow> bool" where
  "wordChar c =
     ((CHR ''0'' \<le> c \<and> c \<le> CHR ''9'') \<or> (CHR ''A'' \<le> c \<and> c \<le> CHR ''Z'') \<or>
      (CHR ''a'' \<le> c \<and> c \<le> CHR ''z'') \<or> c = CHR ''_'')"

definition dotChar :: "char \<Rightarrow> bool" where
  "dotChar c = (c = CHR ''.'')"

definition closerChar :: "char \<Rightarrow> bool" where
  "closerChar c = (c = CHR '';'' \<or> c = CHR '']'' \<or> c = CHR '')'' \<or> c = CHR ''}'')"

text \<open>The expression \<open>((\w+\.)*\w+)\.[;\]\)\}]*$\<close>, without its final \<open>$\<close>.\<close>

definition reIndex :: rexp where
  "reIndex =
     Seq (Seq (Star (Seq (Plus (Atom wordChar)) (Atom dotChar))) (Plus (Atom wordChar)))
         (Seq (Atom dotChar) (Star (Atom closerChar)))"

text \<open>
  \<open>FindAllString(source, 1)\<close> returns the leftmost match, or nil. The expression ends with
  \<open>$\<close>, which matches at the end of the text only, so a match that starts at an offset is
  the whole rest of the text from there: the leftmost match is the longest suffix of the
  source that the expression matches. \<open>findAllString1\<close> tries the offsets from the left and
  returns the slice of the matches, empty for nil.
\<close>

fun findAllString1 :: "rexp \<Rightarrow> string \<Rightarrow> string list" where
  "findAllString1 r [] = (if matches r [] then [[]] else [])"
| "findAllString1 r (c # cs) =
     (if matches r (c # cs) then [c # cs] else findAllString1 r cs)"

text \<open>\<open>strings.Split\<close> with a one-byte separator.\<close>

fun split :: "string \<Rightarrow> char \<Rightarrow> string list" where
  "split [] sep = [[]]"
| "split (c # cs) sep =
     (let rest = split cs sep
      in if c = sep then [] # rest else (c # hd rest) # tl rest)"

definition ignoredIndexItems :: "string list" where
  "ignoredIndexItems = [''}'', '']'', '')'', '';'']"

fun stringInSlice :: "string \<Rightarrow> string list \<Rightarrow> bool" where
  "stringInSlice s [] = False"
| "stringInSlice s (x # sl) = (if x = s then True else stringInSlice s sl)"

fun removeEmpty :: "string list \<Rightarrow> string list" where
  "removeEmpty [] = []"
| "removeEmpty (s # sl) =
     (if s \<noteq> [] then
        (if \<not> stringInSlice s ignoredIndexItems then s # removeEmpty sl else removeEmpty sl)
      else removeEmpty sl)"

text \<open>
  \<open>%q\<close> prints a string as a Go string literal, between double quotes and with escapes.
  The rendering is the work of the \<open>fmt\<close> package; it is the parameter \<open>quote\<close> of the
  functions that format with \<open>%q\<close>.
\<close>

definition resolveIndex :: "(string \<Rightarrow> string) \<Rightarrow> string \<Rightarrow> fault + string list" where
  "resolveIndex quote source =
     (let match = findAllString1 reIndex source
      in if match = [] then Inl (Error (quote source @ '' does not contain an index''))
         else if length match \<noteq> 1
         then Inl (Error ''expected only one match when looking for index'')
         else Inr (removeEmpty (split (match ! 0) CHR ''.'')))"

section \<open>server.updateNodeCache\<close>

text \<open>
  The function starts the rebuild in a goroutine, which sends on \<open>errCh\<close> when it fails and
  on \<open>done\<close> when it succeeds, starts a timer of one second, and then loops over a \<open>select\<close>
  on the three channels. The run of the loop is determined by the sequence of messages
  that the \<open>select\<close> receives, in the order it receives them: \<open>selectLoop\<close> is the loop on
  such a sequence, with the variable \<open>sentNotif\<close>. When no further message arrives the
  \<open>select\<close> blocks, and nothing more happens. The effects are the calls of \<open>showMessage\<close>
  (all of type \<open>lsp.MTWarning\<close>) and what is logged on the span. The messages name the
  file with \<open>%q\<close>.
\<close>

datatype received = FromErrCh fault | FromDone | FromTimer

datatype cacheEffect = ShowMessage string | SpanStatus string | SpanError fault

definition runningMsg :: "(string \<Rightarrow> string) \<Rightarrow> string \<Rightarrow> string" where
  "runningMsg quote file = ''Import processing for '' @ quote file @ '' is running''"

definition completeMsg :: "(string \<Rightarrow> string) \<Rightarrow> string \<Rightarrow> string" where
  "completeMsg quote file = ''Import processing for '' @ quote file @ '' is complete''"

fun selectLoop ::
  "(string \<Rightarrow> string) \<Rightarrow> string \<Rightarrow> bool \<Rightarrow> received list \<Rightarrow> cacheEffect list" where
  "selectLoop quote file sentNotif [] = []"
| "selectLoop quote file sentNotif (FromErrCh err # rest) = [SpanError err]"
| "selectLoop quote file sentNotif (FromDone # rest) =
     (if sentNotif
      then [ShowMessage (completeMsg quote file), SpanStatus ''cancel notification'']
      else [])"
| "selectLoop quote file sentNotif (FromTimer # rest) =
     ShowMessage (runningMsg quote file) # SpanStatus ''send notification'' #
     selectLoop quote file True rest"

text \<open>\<open>filepath.Split\<close>: the file is what follows the last separator of the path.\<close>

definition splitFile :: "string \<Rightarrow> string" where
  "splitFile path = rev (takeWhile (\<lambda>c. c \<noteq> CHR ''/'') (rev path))"

definition updateNodeCache ::
  "(string \<Rightarrow> string) \<Rightarrow> (string \<Rightarrow> fault + string) \<Rightarrow> string \<Rightarrow> received list \<Rightarrow>
   cacheEffect list" where
  "updateNodeCache quote toPath uriStr msgs =
     (case toPath uriStr of
        Inl err \<Rightarrow> [SpanError err]
      | Inr path \<Rightarrow> selectLoop quote (splitFile path) False msgs)"

section \<open>lexical.HoverAtLocation and the hover handler\<close>

record lspPosition =
  lspLine :: go_int
  lspCharacter :: go_int

record lspRange =
  lspStart :: lspPosition
  lspEnd :: lspPosition

record markedString =
  Language :: string
  Value :: string

record hover =
  Contents :: "markedString list"
  hoverRange :: lspRange

definition emptyHover :: hover where
  "emptyHover =
     \<lparr>Contents = [],
      hoverRange = \<lparr>lspStart = \<lparr>lspLine = 0, lspCharacter = 0\<rparr>,
                    lspEnd = \<lparr>lspLine = 0, lspCharacter = 0\<rparr>\<rparr>\<rparr>"

text \<open>What \<open>Resolve\<close> returns, as far as \<open>HoverAtLocation\<close> reads it.\<close>

record resolved =
  Description :: string
  Location :: locationRange

text \<open>
  \<open>newHoverVisitor\<close>, the visitor's \<open>TokenAtLocation\<close> and the locatable's \<open>Resolve\<close> are
  not among the sources: they are parameters, over a type of visitors and a type of
  locatables. The reader \<open>r\<close> is the text it reads. A nil locatable is \<open>None\<close>.
\<close>

definition HoverAtLocation ::
  "(string \<Rightarrow> string \<Rightarrow> location \<Rightarrow> fault + 'v) \<Rightarrow> ('v \<Rightarrow> fault + 'l option) \<Rightarrow>
   ('l \<Rightarrow> fault + resolved) \<Rightarrow> string \<Rightarrow> string \<Rightarrow> go_int \<Rightarrow> go_int \<Rightarrow> fault + hover" where
  "HoverAtLocation newHoverVisitor tokenAtLocation resolve filename r l c =
     (let loc = \<lparr>Line = l, Column = c\<rparr>
      in case newHoverVisitor filename r loc of
           Inl err \<Rightarrow> Inl err
         | Inr v \<Rightarrow>
             (case tokenAtLocation v of
                Inl err \<Rightarrow> Inl err
              | Inr None \<Rightarrow> Inr emptyHover
              | Inr (Some locatable) \<Rightarrow>
                  (case resolve locatable of
                     Inl err \<Rightarrow> if err = ErrUnresolvable then Inr emptyHover else Inl err
                   | Inr res \<Rightarrow>
                       Inr \<lparr>Contents = [\<lparr>Language = ''jsonnet'', Value = Description res\<rparr>],
                            hoverRange =
                              \<lparr>lspStart = \<lparr>lspLine = Line (Begin (Location res)) - 1,
                                           lspCharacter = Column (Begin (Location res)) - 1\<rparr>,
                               lspEnd = \<lparr>lspLine = Line (End (Location res)) - 1,
                                         lspCharacter = Column (End (Location res)) - 1\<rparr>\<rparr>\<rparr>)))"




section \<open>Ranges in completion items and diagnostics\<close>











section \<open>The scope at a position\<close>

text \<open>
  Modelled from the spec: a position is in a range when it is not before the range's
  begin and not after its end, lines first, then columns.
\<close>

definition notAfter :: "go_int \<Rightarrow> go_int \<Rightarrow> go_int \<Rightarrow> go_int \<Rightarrow> bool" where
  "notAfter l1 c1 l2 c2 = (sint l1 < sint l2 \<or> (l1 = l2 \<and> sint c1 \<le> sint c2))"

definition IsInJsonnetRange :: "jposition \<Rightarrow> locationRange \<Rightarrow> bool" where
  "IsInJsonnetRange pos r =
     (notAfter (Line (Begin r)) (Column (Begin r)) (posLine pos) (posColumn pos) \<and>
      notAfter (posLine pos) (posColumn pos) (Line (End r)) (Column (End r)))"

text \<open>
  Modelled from the spec: \<open>LocationScope\<close> and the scope it builds are not among the
  sources, which hold their tests only (\<open>TestScope\<close>, \<open>TestScopeMap\<close>). By the spec a scope
  maps an identifier to an entry with a detail string and the owning node, with unique
  keys. It is built by walking from the root of the tree down to the position. The walk
  enters a local's body scope, adding all its binds, only when the position lies within
  the body's range; a function's body scope, adding all parameters, only when the position
  lies within the function's range; and a structural literal's field scope, adding self,
  super and the field names, only when the position lies within the literal's range. The
  built-in \<open>std\<close> is in every scope. A partial node stands for syntax that is absent: it
  has a begin, and a position from its begin on falls inside it (the tests find the
  partial body of \<open>local a="a";\<close>, at 1:13, for the position 2:1). By the tests \<open>add\<close>
  enters an identifier with itself as the detail, and \<open>Keys\<close> lists the identifiers in
  ascending order.
\<close>

record scopeEntry =
  Detail :: string
  Documentation :: string
  Node :: node

type_synonym scope = "(string \<times> scopeEntry) list"

definition scopeAdd :: "string \<Rightarrow> node \<Rightarrow> scope \<Rightarrow> scope" where
  "scopeAdd ident n sc =
     (ident, \<lparr>Detail = ident, Documentation = [], Node = n\<rparr>) # filter (\<lambda>e. fst e \<noteq> ident) sc"

definition Keys :: "scope \<Rightarrow> string list" where
  "Keys sc = sort (map fst sc)"

fun within :: "jposition \<Rightarrow> node \<Rightarrow> bool" where
  "within pos NilNode = False"
| "within pos (Partial l) =
     notAfter (Line (Begin l)) (Column (Begin l)) (posLine pos) (posColumn pos)"
| "within pos (LiteralString v l) = IsInJsonnetRange pos l"
| "within pos (Var i l) = IsInJsonnetRange pos l"
| "within pos (Index t i l) = IsInJsonnetRange pos l"
| "within pos (Function ps b l) = IsInJsonnetRange pos l"
| "within pos (Local bs b l) = IsInJsonnetRange pos l"
| "within pos (DesugaredObject ob) = IsInJsonnetRange pos (objLoc ob)"
| "within pos (PartialIndex t l) = IsInJsonnetRange pos l"
| "within pos (OtherNode tn cs l) = IsInJsonnetRange pos l"

text \<open>
  The nodes directly below a node, in the order in which the walk tries them: the body of
  a local before the bodies of its binds, the body of a function before the default
  values of its parameters, the bodies of an object's fields.
\<close>

fun children :: "node \<Rightarrow> node list" where
  "children (Local binds body l) = body # map bindBody binds"
| "children (Function ps body l) = body # map DefaultArg (Optional ps)"
| "children (DesugaredObject ob) = map Body (Fields ob)"
| "children (Index t i l) = [t, i]"
| "children (PartialIndex t l) = [t]"
| "children (OtherNode tn cs l) = cs"
| "children n = []"

text \<open>The bindings that a node introduces for a position.\<close>

fun fieldBindings :: "field list \<Rightarrow> (string \<times> node) list" where
  "fieldBindings [] = []"
| "fieldBindings (DesugaredObjectField (LiteralString v l) body # fs) = (v, body) # fieldBindings fs"
| "fieldBindings (f # fs) = fieldBindings fs"

fun introduces :: "jposition \<Rightarrow> node \<Rightarrow> (string \<times> node) list" where
  "introduces pos (Local binds body l) =
     (if within pos body then map (\<lambda>b. (Variable b, bindBody b)) binds else [])"
| "introduces pos (Function ps body l) =
     (if IsInJsonnetRange pos l
      then map (\<lambda>p. (p, Function ps body l)) (Required ps) @
           map (\<lambda>p. (paramName p, DefaultArg p)) (Optional ps)
      else [])"
| "introduces pos (DesugaredObject ob) =
     (if IsInJsonnetRange pos (objLoc ob)
      then (''self'', DesugaredObject ob) # (''super'', DesugaredObject ob) #
           fieldBindings (Fields ob)
      else [])"
| "introduces pos n = []"

fun scopeAddAll :: "(string \<times> node) list \<Rightarrow> scope \<Rightarrow> scope" where
  "scopeAddAll [] sc = sc"
| "scopeAddAll ((ident, n) # bs) sc = scopeAddAll bs (scopeAdd ident n sc)"

text \<open>
  The walk from a node towards the position: the nodes entered, the root first. From a
  node the walk goes on into the first node below it that holds the position, and ends
  where there is none.
\<close>

function walk :: "jposition \<Rightarrow> node \<Rightarrow> node list" where
  "walk pos n =
     n # (case find (within pos) (children n) of None \<Rightarrow> [] | Some c \<Rightarrow> walk pos c)"
  by pat_completeness auto
termination
proof (relation "measure (\<lambda>(pos, n). size n)")
  show "wf (measure (\<lambda>(pos, n). size n))" by simp
next
  fix pos :: jposition and n c :: node
  assume "find (within pos) (children n) = Some c"
  then have c: "c \<in> set (children n)"
    by (auto simp: find_Some_iff in_set_conv_nth)
  have "size c < size n"
  proof (cases n)
    case (Local binds body l)
    show ?thesis
    proof (cases "c = body")
      case True
      with Local show ?thesis by simp
    next
      case False
      with c Local obtain b where b: "b \<in> set binds" "c = bindBody b" by auto
      have "size (bindBody b) < size b" by (cases b) simp
      with b(1) have "size (bindBody b) < size_list size binds"
        by (rule size_list_estimation)
      with b(2) Local show ?thesis by simp
    qed
  next
    case (Function ps body l)
    show ?thesis
    proof (cases "c = body")
      case True
      with Function show ?thesis by simp
    next
      case False
      with c Function obtain p where p: "p \<in> set (Optional ps)" "c = DefaultArg p" by auto
      have "size (DefaultArg p) < size p" by (cases p) simp
      with p(1) have "size (DefaultArg p) < size_list size (Optional ps)"
        by (rule size_list_estimation)
      also have "\<dots> \<le> size ps" by (cases ps) simp
      finally show ?thesis using p(2) Function by simp
    qed
  next
    case (DesugaredObject ob)
    with c obtain f where f: "f \<in> set (Fields ob)" "c = Body f" by auto
    have "size (Body f) < size f" by (cases f) simp
    with f(1) have "size (Body f) < size_list size (Fields ob)"
      by (rule size_list_estimation)
    also have "\<dots> \<le> size ob" by (cases ob) simp
    finally show ?thesis using f(2) DesugaredObject by simp
  next
    case (OtherNode tn cs l)
    with c have "c \<in> set cs" by simp
    then have "size c \<le> size_list size cs"
      by (rule size_list_estimation') simp
    with OtherNode show ?thesis by simp
  qed (use c in auto)
  then show "((pos, c), (pos, n)) \<in> measure (\<lambda>(pos, n). size n)" by simp
qed

declare walk.simps [simp del]

text \<open>The scope: \<open>std\<close>, and what each node entered introduces, from the root down.\<close>

definition LocationScope :: "node \<Rightarrow> node \<Rightarrow> jposition \<Rightarrow> scope" where
  "LocationScope std tree pos =
     foldl (\<lambda>sc n. scopeAddAll (introduces pos n) sc) (scopeAdd ''std'' std []) (walk pos tree)"

section \<open>Example inputs\<close>

text \<open>
  What \<open>%q\<close> prints for a string of printable ASCII characters without a quote or a
  backslash.
\<close>

definition quoted :: "string \<Rightarrow> string" where
  "quoted s = CHR 0x22 # s @ [CHR 0x22]"

text \<open>
  Trees for the sources of \<open>TestScope\<close>, written out with the ranges the parser gives:
  \<open>local a="a";a\<close>; \<open>local a="a";\<close>, whose body is the partial node at 1:13; the two lines
  \<open>local o={a:'b'};\<close> and \<open>local y=o.\<close>, where the second local has a partial body at 2:11;
  \<open>local o={a:"a"};\<close>; and \<open>local o={a:{b:{c:{d:"e"}}}};o.a.b.c.d.e\<close>. Then the tree of
  \<open>local f(x)=x; f\<close>, and a node for the standard library.
\<close>

definition localA :: node where
  "localA =
     Local [LocalBind ''a'' (LiteralString ''a'' (createRange ''file.jsonnet'' 1 9 1 12))
                      (createRange ''file.jsonnet'' 1 7 1 8)]
           (Var ''a'' (createRange ''file.jsonnet'' 1 13 1 14))
           (createRange ''file.jsonnet'' 1 1 1 14)"

definition localNoBody :: node where
  "localNoBody =
     Local [LocalBind ''a'' (LiteralString ''a'' (createRange ''file.jsonnet'' 1 9 1 12))
                      (createRange ''file.jsonnet'' 1 7 1 8)]
           (Partial (createRange ''file.jsonnet'' 1 13 1 13))
           (createRange ''file.jsonnet'' 1 1 1 13)"

definition objectA :: "go_int \<Rightarrow> go_int \<Rightarrow> node" where
  "objectA c1 c2 =
     DesugaredObject
       (DObj 1 [DesugaredObjectField (LiteralString ''a'' (createRange ''file.jsonnet'' 1 10 1 11))
                  (Local [] (LiteralString ''b'' (createRange ''file.jsonnet'' 1 12 1 15))
                     (createRange ''file.jsonnet'' 1 12 1 15))]
          [(KeyString ''a'', createRange ''file.jsonnet'' 1 10 1 11)]
          (createRange ''file.jsonnet'' 1 c1 1 c2))"

definition localIncomplete :: node where
  "localIncomplete =
     Local [LocalBind ''o'' (objectA 9 16) (createRange ''file.jsonnet'' 1 7 1 8)]
           (Local [LocalBind ''y''
                     (PartialIndex (Var ''o'' (createRange ''file.jsonnet'' 2 9 2 10))
                        (createRange ''file.jsonnet'' 2 11 2 11))
                     (createRange ''file.jsonnet'' 2 7 2 8)]
                  (Partial (createRange ''file.jsonnet'' 2 11 2 11))
                  (createRange ''file.jsonnet'' 2 1 2 11))
           (createRange ''file.jsonnet'' 1 1 2 11)"

definition localObjectNoBody :: node where
  "localObjectNoBody =
     Local [LocalBind ''o'' (objectA 9 16) (createRange ''file.jsonnet'' 1 7 1 8)]
           (Partial (createRange ''file.jsonnet'' 1 17 1 17))
           (createRange ''file.jsonnet'' 1 1 1 17)"

definition objectOf :: "nat \<Rightarrow> string \<Rightarrow> go_int \<Rightarrow> node \<Rightarrow> go_int \<Rightarrow> node" where
  "objectOf addr name c1 body c2 =
     DesugaredObject
       (DObj addr [DesugaredObjectField
                     (LiteralString name (createRange ''file.jsonnet'' 1 (c1 + 1) 1 (c1 + 2)))
                     (Local [] body (createRange ''file.jsonnet'' 1 (c1 + 3) 1 (c2 - 1)))]
          [(KeyString name, createRange ''file.jsonnet'' 1 (c1 + 1) 1 (c1 + 2))]
          (createRange ''file.jsonnet'' 1 c1 1 c2))"

definition indexOf :: "node \<Rightarrow> string \<Rightarrow> go_int \<Rightarrow> node" where
  "indexOf target name c =
     Index target (LiteralString name (createRange ''file.jsonnet'' 1 c 1 (c + 1)))
       (createRange ''file.jsonnet'' 1 29 1 (c + 1))"

definition deepObject :: node where
  "deepObject =
     Local [LocalBind ''o''
              (objectOf 1 ''a'' 9
                 (objectOf 2 ''b'' 12
                    (objectOf 3 ''c'' 15
                       (objectOf 4 ''d'' 18
                          (LiteralString ''e'' (createRange ''file.jsonnet'' 1 21 1 24)) 25) 26) 27) 28)
              (createRange ''file.jsonnet'' 1 7 1 8)]
           (indexOf (indexOf (indexOf (indexOf (indexOf
              (Var ''o'' (createRange ''file.jsonnet'' 1 29 1 30)) ''a'' 31) ''b'' 33) ''c'' 35)
              ''d'' 37) ''e'' 39)
           (createRange ''file.jsonnet'' 1 1 1 40)"


definition stdObject :: node where
  "stdObject = DesugaredObject (DObj 0 [] [] (createRange ''<std>'' 0 0 0 0))"

text \<open>
  The object of \<open>Test_objectMapper_lookup\<close>, \<open>{a: {b: 'c'}}\<close>, with its nested object, and
  the mapper after both fields were added; and the object \<open>{x:{b:'c'},a:'str'}\<close>, in which
  the field \<open>a\<close> is not the first, with a mapper that has all the fields.
\<close>

definition nestedB :: dobj where
  "nestedB =
     DObj 2 [DesugaredObjectField (LiteralString ''b'' (createRange ''file.jsonnet'' 1 6 1 7))
               (Local [] (LiteralString ''c'' (createRange ''file.jsonnet'' 1 9 1 12))
                  (createRange ''file.jsonnet'' 1 9 1 12))]
       [(KeyString ''b'', createRange ''file.jsonnet'' 1 6 1 7)]
       (createRange ''file.jsonnet'' 1 5 1 13)"

definition objectAB :: dobj where
  "objectAB =
     DObj 1 [DesugaredObjectField (LiteralString ''a'' (createRange ''file.jsonnet'' 1 2 1 3))
               (Local [] (DesugaredObject nestedB) (createRange ''file.jsonnet'' 1 5 1 13))]
       [(KeyString ''a'', createRange ''file.jsonnet'' 1 2 1 3)]
       (createRange ''file.jsonnet'' 1 1 1 14)"

definition objectXA :: dobj where
  "objectXA =
     DObj 3 [DesugaredObjectField (LiteralString ''x'' (createRange ''file.jsonnet'' 1 2 1 3))
               (Local [] (DesugaredObject nestedB) (createRange ''file.jsonnet'' 1 4 1 11)),
             DesugaredObjectField (LiteralString ''a'' (createRange ''file.jsonnet'' 1 12 1 13))
               (Local [] (LiteralString ''str'' (createRange ''file.jsonnet'' 1 14 1 19))
                  (createRange ''file.jsonnet'' 1 14 1 19))]
       [(KeyString ''x'', createRange ''file.jsonnet'' 1 2 1 3),
        (KeyString ''a'', createRange ''file.jsonnet'' 1 12 1 13)]
       (createRange ''file.jsonnet'' 1 1 1 20)"

definition mapperXA :: objectMapper where
  "mapperXA = [(3, ''x'') \<mapsto> createRange ''file.jsonnet'' 1 2 1 3,
               (3, ''a'') \<mapsto> createRange ''file.jsonnet'' 1 12 1 13,
               (2, ''b'') \<mapsto> createRange ''file.jsonnet'' 1 6 1 7]"

definition mapperAB :: objectMapper where
  "mapperAB = [(1, ''a'') \<mapsto> createRange ''file.jsonnet'' 1 2 1 3,
               (2, ''b'') \<mapsto> createRange ''file.jsonnet'' 1 6 1 7]"

text \<open>
  Objects with one field each: named by a string, by a variable (\<open>{[a]: 'a'}\<close>) and by
  another expression (\<open>{['a'+'b']: 'a'}\<close>); and a table of field locations in which the
  ranges of two keys coincide. In the examples the rendering of a position is never
  called.
\<close>

definition noString :: "jposition \<Rightarrow> string" where
  "noString pos = []"

definition computedKeyObject :: dobj where
  "computedKeyObject =
     DObj 1 [DesugaredObjectField
               (OtherNode ''*ast.Binary''
                  [LiteralString ''a'' (createRange ''file.jsonnet'' 1 3 1 6),
                   LiteralString ''b'' (createRange ''file.jsonnet'' 1 7 1 10)]
                  (createRange ''file.jsonnet'' 1 3 1 10))
               (Local [] (LiteralString ''a'' (createRange ''file.jsonnet'' 1 13 1 16))
                  (createRange ''file.jsonnet'' 1 13 1 16))]
       [(KeyNode (OtherNode ''*ast.Binary''
                  [LiteralString ''a'' (createRange ''file.jsonnet'' 1 3 1 6),
                   LiteralString ''b'' (createRange ''file.jsonnet'' 1 7 1 10)]
                  (createRange ''file.jsonnet'' 1 3 1 10)),
         createRange ''file.jsonnet'' 1 2 1 11)]
       (createRange ''file.jsonnet'' 1 1 1 17)"

definition variableKeyObject :: dobj where
  "variableKeyObject =
     DObj 1 [DesugaredObjectField (Var ''a'' (createRange ''file.jsonnet'' 1 3 1 4))
               (Local [] (LiteralString ''a'' (createRange ''file.jsonnet'' 1 7 1 10))
                  (createRange ''file.jsonnet'' 1 7 1 10))]
       [(KeyNode (Var ''a'' (createRange ''file.jsonnet'' 1 3 1 4)),
         createRange ''file.jsonnet'' 1 2 1 5)]
       (createRange ''file.jsonnet'' 1 1 1 11)"

definition overlappingKeysObject :: dobj where
  "overlappingKeysObject =
     DObj 1 []
       [(KeyString ''a'', createRange ''file.jsonnet'' 1 2 1 5),
        (KeyNode (Var ''a'' (createRange ''file.jsonnet'' 1 3 1 4)),
         createRange ''file.jsonnet'' 1 2 1 5)]
       (createRange ''file.jsonnet'' 1 1 1 11)"

definition stringKeyObject :: dobj where
  "stringKeyObject =
     DObj 1 [DesugaredObjectField (LiteralString ''a'' (createRange ''file.jsonnet'' 1 2 1 5))
               (Local [] (LiteralString ''a'' (createRange ''file.jsonnet'' 1 7 1 10))
                  (createRange ''file.jsonnet'' 1 7 1 10))]
       [(KeyString ''a'', createRange ''file.jsonnet'' 1 2 1 5)]
       (createRange ''file.jsonnet'' 1 1 1 11)"

text \<open>
  A translation of file URIs to paths and a store with one document; a visitor, a token
  finder and a resolver that depend on the column only.
\<close>

definition toPathExample :: "string \<Rightarrow> fault + string" where
  "toPathExample u =
     (if take 7 u = ''file://'' then Inr (drop 7 u) else Inl (Error ''invalid file URI''))"


definition visitorAt :: "string \<Rightarrow> string \<Rightarrow> location \<Rightarrow> fault + nat" where
  "visitorAt filename r loc = (if r = [] then Inl (Error ''EOF'') else Inr (unat (Column loc)))"

fun tokenAt :: "nat \<Rightarrow> fault + nat option" where
  "tokenAt 0 = Inl (Error ''find token at position'')"
| "tokenAt (Suc 0) = Inr None"
| "tokenAt n = Inr (Some n)"

definition resolveToken :: "nat \<Rightarrow> fault + resolved" where
  "resolveToken n =
     (if n = 2 then Inl ErrUnresolvable
      else if n = 3 then Inl (Error ''resolve'')
      else Inr \<lparr>Description = ''(object)'',
                Location = createRange ''file.jsonnet'' 1 (of_nat n) 1 (of_nat n + 1)\<rparr>)"




text \<open>
  Parameters for \<open>idNode\<close> and \<open>Locate\<close> in which no object has a parent, no index has a
  path and no locator succeeds; the root of \<open>local a="a";a\<close> as a parent; and a table of
  operations whose highlight operation panics.
\<close>

definition noParent :: "dobj \<Rightarrow> node" where
  "noParent ob = NilNode"

definition noIndexPath :: "node \<Rightarrow> string list" where
  "noIndexPath n = []"

definition noLocators :: locators where
  "noLocators =
     \<lparr>locDesugaredObjectField = (\<lambda>t loc source. Inl (Error ''not located'')),
      locForSpec = (\<lambda>t loc source. Inl (Error ''not located'')),
      locIdentifier = (\<lambda>t loc source. Inl (Error ''not located'')),
      locLocalBind = (\<lambda>t loc source. Inl (Error ''not located'')),
      locNamedParameter = (\<lambda>t loc source. Inl (Error ''not located'')),
      locRequiredParameter = (\<lambda>t loc source. Inl (Error ''not located''))\<rparr>"

definition rootLocatable :: locatable where
  "rootLocatable = \<lparr>Token = TokNode localA, Loc = createRange ''file.jsonnet'' 1 1 1 14\<rparr>"

definition crashingHighlight :: "unit request \<Rightarrow> fault + string" where
  "crashingHighlight req = Inl (Panic ''unable to find nodes of type *ast.LiteralString'')"

definition crashingOperations :: "string \<rightharpoonup> (unit request \<Rightarrow> fault + string)" where
  "crashingOperations = [''textDocument/documentHighlight'' \<mapsto> crashingHighlight]"

definition noReplyError :: "'a \<Rightarrow> fault option" where
  "noReplyError x = None"

definition highlightRequest :: "unit request" where
  "highlightRequest =
     \<lparr>Method = ''textDocument/documentHighlight'', Params = Some ''{}'', payload = ()\<rparr>"

section \<open>Properties\<close>

subsection \<open>findLocation2\<close>

lemma of_nat_neq_pos:
  fixes pos :: go_int
  assumes "k < unat pos"
  shows "pos \<noteq> of_nat k"
proof
  assume "pos = of_nat k"
  then have "unat pos = unat (of_nat k :: go_int)" by simp
  also have "\<dots> = k mod 2 ^ 64" by (simp add: unat_of_nat)
  also have "\<dots> \<le> k" by simp
  finally show False using assms by simp
qed

lemma scanBytes_hit:
  "unat pos = k + j \<Longrightarrow> j < length bs \<Longrightarrow>
   scanBytes pos bs (of_nat k) row 1 =
     Inr (createLoc (row + of_nat (newlines (take (Suc j) bs))) 1)"
proof (induction bs arbitrary: k j row)
  case Nil
  then show ?case by simp
next
  case (Cons t ts)
  show ?case
  proof (cases j)
    case 0
    with Cons.prems have "unat pos = k" by simp
    moreover have "of_nat (unat pos) = pos" by simp
    ultimately have "pos = of_nat k" by simp
    with 0 show ?thesis by (simp add: newlines_def)
  next
    case (Suc j')
    with Cons.prems have ne: "pos \<noteq> of_nat k"
      by (intro of_nat_neq_pos) simp
    from Suc Cons.prems have "unat pos = Suc k + j'" "j' < length ts" by simp_all
    from Cons.IH [OF this]
    have "scanBytes pos ts (of_nat (Suc k)) (if t = newline then row + 1 else row) 1 =
      Inr (createLoc ((if t = newline then row + 1 else row) + of_nat (newlines (take (Suc j') ts))) 1)" .
    with ne Suc show ?thesis
      by (simp add: newlines_def ac_simps)
  qed
qed

lemma scanBytes_miss:
  "k + length bs \<le> unat pos \<Longrightarrow>
   scanBytes pos bs (of_nat k) row col = Inl (Error ''position was not in source'')"
proof (induction bs arbitrary: k row col)
  case Nil
  then show ?case by simp
next
  case (Cons t ts)
  from Cons.prems have ne: "pos \<noteq> of_nat k"
    by (intro of_nat_neq_pos) simp
  from Cons.prems have "Suc k + length ts \<le> unat pos" by simp
  from Cons.IH [OF this] ne show ?case
    by (simp add: add.commute)
qed

text \<open>
  C10: \<open>findLocation2\<close> never advances its column counter. For every source and every
  offset inside it the location returned has column 1, and its line is 1 plus the number of
  newlines up to and including the byte at the offset; for an offset at or past the end
  (a negative offset reads as one) the function returns the error
  \<open>position was not in source\<close>.
\<close>

theorem findLocation2_column_one:
  "(unat pos < length source \<longrightarrow>
      findLocation2 source pos =
        Inr (createLoc (1 + of_nat (newlines (take (Suc (unat pos)) source))) 1)) \<and>
   (length source \<le> unat pos \<longrightarrow>
      findLocation2 source pos = Inl (Error ''position was not in source''))"
proof (intro conjI impI)
  assume "unat pos < length source"
  with scanBytes_hit [of pos 0 "unat pos" source 1]
  show "findLocation2 source pos =
        Inr (createLoc (1 + of_nat (newlines (take (Suc (unat pos)) source))) 1)"
    by (simp add: findLocation2_def)
next
  assume "length source \<le> unat pos"
  with scanBytes_miss [of 0 source pos 1 1]
  show "findLocation2 source pos = Inl (Error ''position was not in source'')"
    by (simp add: findLocation2_def)
qed

theorem findLocation2_column_one_witness:
  "findLocation2 [CHR ''a'', CHR ''b'', newline, CHR ''c'', CHR ''d''] 4 = Inr (createLoc 2 1) \<and>
   findLocation2 [CHR ''a'', CHR ''b'', newline, CHR ''c'', CHR ''d''] 5 =
     Inl (Error ''position was not in source'') \<and>
   findLocation2 [CHR ''a'', CHR ''b'', newline, CHR ''c'', CHR ''d''] (- 1) =
     Inl (Error ''position was not in source'')"
proof -
  have "unat (- 1 :: go_int) = 2 ^ 64 - 1"
    by (simp add: unsigned_minus_1_eq_mask mask_eq_exp_minus_1)
  then have "length [CHR ''a'', CHR ''b'', newline, CHR ''c'', CHR ''d''] \<le> unat (- 1 :: go_int)"
    by simp
  with findLocation2_column_one [of "- 1" "[CHR ''a'', CHR ''b'', newline, CHR ''c'', CHR ''d'']"]
  have "findLocation2 [CHR ''a'', CHR ''b'', newline, CHR ''c'', CHR ''d''] (- 1) =
     Inl (Error ''position was not in source'')"
    by blast
  with findLocation2_column_one [of 4 "[CHR ''a'', CHR ''b'', newline, CHR ''c'', CHR ''d'']"]
    findLocation2_column_one [of 5 "[CHR ''a'', CHR ''b'', newline, CHR ''c'', CHR ''d'']"]
  show ?thesis
    by (simp add: newlines_def newline_def)
qed

subsection \<open>objectMapper.lookup\<close>

text \<open>
  C9: on the empty path \<open>lookup\<close> panics with a run-time error for a slice read out of
  range, and does not return an error. The outcome is the same for every mapper and every
  object: nothing is looked up before the panic.
\<close>

theorem lookup_empty_path_panics:
  "lookup om ob [] = Inl (Panic ''runtime error: slice bounds out of range [1:0]'') \<and>
   (\<forall>msg. lookup om ob [] \<noteq> Inl (Error msg)) \<and>
   (\<forall>loc. lookup om ob [] \<noteq> Inr loc) \<and>
   lookup om ob [] = lookup om' ob' []"
  by simp

lemma fieldName_error: "fieldName f = Inl e \<Longrightarrow> \<exists>msg. e = Error msg"
  by (cases f rule: fieldName.cases) auto

lemma fieldByNameLoop_error: "fieldByNameLoop fs name = Inl e \<Longrightarrow> \<exists>msg. e = Error msg"
  by (induction fs) (auto split: sum.splits if_splits dest: fieldName_error)

lemma fieldByName_error: "fieldByName ob name = Inl e \<Longrightarrow> \<exists>msg. e = Error msg"
  unfolding fieldByName_def by (rule fieldByNameLoop_error)

lemma lookup_step:
  "path \<noteq> [] \<Longrightarrow>
   lookup om ob (name # path) =
     (case om (objAddr ob, name) of
        None \<Rightarrow> Inl (Error (''field '' @ name @ '' does not exist in object''))
      | Some lr \<Rightarrow>
          (case fieldByName ob name of
             Inl err \<Rightarrow> Inl err
           | Inr nested \<Rightarrow>
               (case Body nested of
                  Local binds body l \<Rightarrow>
                    (case body of
                       DesugaredObject nestedObject \<Rightarrow> lookup om nestedObject path
                     | _ \<Rightarrow> Inl (Error (''expected body to be an object; it was '' @ typeName body)))
                | _ \<Rightarrow> Inl (Error (''field '' @ name @ '' doesn't have local scope'')))))"
  by (simp split: option.splits)

lemma lookup_error_or_ok:
  "path \<noteq> [] \<Longrightarrow> lookup om ob path = Inl e \<Longrightarrow> \<exists>msg. e = Error msg"
proof (induction om ob path rule: lookup.induct)
  case (1 om ob)
  then show ?case by simp
next
  case (2 om ob name path)
  show ?case
  proof (cases "path = []")
    case True
    with "2.prems" show ?thesis by (auto split: option.splits)
  next
    case False
    with "2.prems" "2.IH" show ?thesis
      by (auto simp del: lookup.simps simp add: lookup_step
          split: option.splits sum.splits node.splits dest: fieldByName_error)
  qed
qed

lemma fieldByNameLoop_Inr:
  "fieldByNameLoop fs name = Inr fld \<longleftrightarrow>
   (\<exists>pre post. fs = pre @ fld # post \<and> fieldName fld = Inr name \<and>
      (\<forall>g \<in> set pre. \<exists>n. fieldName g = Inr n \<and> n \<noteq> name))"
proof (induction fs)
  case Nil
  then show ?case by simp
next
  case (Cons f fs)
  show ?case
  proof (cases "fieldName f")
    case (Inl err)
    have "\<not> (\<exists>pre post. f # fs = pre @ fld # post \<and> fieldName fld = Inr name \<and>
      (\<forall>g \<in> set pre. \<exists>n. fieldName g = Inr n \<and> n \<noteq> name))"
    proof
      assume "\<exists>pre post. f # fs = pre @ fld # post \<and> fieldName fld = Inr name \<and>
        (\<forall>g \<in> set pre. \<exists>n. fieldName g = Inr n \<and> n \<noteq> name)"
      then obtain pre post where p: "f # fs = pre @ fld # post" "fieldName fld = Inr name"
        "\<forall>g \<in> set pre. \<exists>n. fieldName g = Inr n \<and> n \<noteq> name" by blast
      show False
      proof (cases pre)
        case Nil
        with p Inl show False by simp
      next
        case (Cons g pre')
        with p Inl show False by auto
      qed
    qed
    with Inl show ?thesis by simp
  next
    case (Inr fn)
    show ?thesis
    proof (cases "fn = name")
      case True
      have "(\<exists>pre post. f # fs = pre @ fld # post \<and> fieldName fld = Inr name \<and>
          (\<forall>g \<in> set pre. \<exists>n. fieldName g = Inr n \<and> n \<noteq> name)) \<longleftrightarrow> fld = f"
      proof
        assume "\<exists>pre post. f # fs = pre @ fld # post \<and> fieldName fld = Inr name \<and>
          (\<forall>g \<in> set pre. \<exists>n. fieldName g = Inr n \<and> n \<noteq> name)"
        then obtain pre post where p: "f # fs = pre @ fld # post"
          "\<forall>g \<in> set pre. \<exists>n. fieldName g = Inr n \<and> n \<noteq> name" by blast
        show "fld = f"
        proof (cases pre)
          case Nil
          with p show ?thesis by simp
        next
          case (Cons g pre')
          with p Inr True show ?thesis by auto
        qed
      next
        assume "fld = f"
        with Inr True have "f # fs = [] @ fld # fs \<and> fieldName fld = Inr name \<and>
          (\<forall>g \<in> set []. \<exists>n. fieldName g = Inr n \<and> n \<noteq> name)" by simp
        then show "\<exists>pre post. f # fs = pre @ fld # post \<and> fieldName fld = Inr name \<and>
          (\<forall>g \<in> set pre. \<exists>n. fieldName g = Inr n \<and> n \<noteq> name)" by blast
      qed
      with Inr True show ?thesis by auto
    next
      case False
      have "(\<exists>pre post. f # fs = pre @ fld # post \<and> fieldName fld = Inr name \<and>
          (\<forall>g \<in> set pre. \<exists>n. fieldName g = Inr n \<and> n \<noteq> name)) \<longleftrightarrow>
        (\<exists>pre post. fs = pre @ fld # post \<and> fieldName fld = Inr name \<and>
          (\<forall>g \<in> set pre. \<exists>n. fieldName g = Inr n \<and> n \<noteq> name))"
      proof
        assume "\<exists>pre post. f # fs = pre @ fld # post \<and> fieldName fld = Inr name \<and>
          (\<forall>g \<in> set pre. \<exists>n. fieldName g = Inr n \<and> n \<noteq> name)"
        then obtain pre post where p: "f # fs = pre @ fld # post" "fieldName fld = Inr name"
          "\<forall>g \<in> set pre. \<exists>n. fieldName g = Inr n \<and> n \<noteq> name" by blast
        show "\<exists>pre post. fs = pre @ fld # post \<and> fieldName fld = Inr name \<and>
          (\<forall>g \<in> set pre. \<exists>n. fieldName g = Inr n \<and> n \<noteq> name)"
        proof (cases pre)
          case Nil
          with p Inr False show ?thesis by simp
        next
          case (Cons g pre')
          with p have "fs = pre' @ fld # post \<and> fieldName fld = Inr name \<and>
            (\<forall>g \<in> set pre'. \<exists>n. fieldName g = Inr n \<and> n \<noteq> name)" by simp
          then show ?thesis by blast
        qed
      next
        assume "\<exists>pre post. fs = pre @ fld # post \<and> fieldName fld = Inr name \<and>
          (\<forall>g \<in> set pre. \<exists>n. fieldName g = Inr n \<and> n \<noteq> name)"
        then obtain pre post where p: "fs = pre @ fld # post" "fieldName fld = Inr name"
          "\<forall>g \<in> set pre. \<exists>n. fieldName g = Inr n \<and> n \<noteq> name" by blast
        with Inr False have "f # fs = (f # pre) @ fld # post \<and> fieldName fld = Inr name \<and>
          (\<forall>g \<in> set (f # pre). \<exists>n. fieldName g = Inr n \<and> n \<noteq> name)" by simp
        then show "\<exists>pre post. f # fs = pre @ fld # post \<and> fieldName fld = Inr name \<and>
          (\<forall>g \<in> set pre. \<exists>n. fieldName g = Inr n \<and> n \<noteq> name)" by blast
      qed
      with Inr False Cons.IH show ?thesis by simp
    qed
  qed
qed

lemma fieldByName_Inr:
  "fieldByName ob name = Inr fld \<longleftrightarrow>
   (\<exists>pre post. Fields ob = pre @ fld # post \<and> fieldName fld = Inr name \<and>
      (\<forall>g \<in> set pre. \<exists>n. fieldName g = Inr n \<and> n \<noteq> name))"
  unfolding fieldByName_def by (rule fieldByNameLoop_Inr)

lemma fieldByName_field:
  "fieldByName ob name = Inr fld \<Longrightarrow> fld \<in> set (Fields ob) \<and> fieldName fld = Inr name"
  unfolding fieldByName_Inr by auto

text \<open>
  C1: for a path of at least two segments, \<open>lookup\<close> succeeds only when the head is in the
  index and the field of that name has a body that is a local whose body is a desugared
  object, and then its result is that of \<open>lookup\<close> in the nested object on the tail;
  otherwise it returns an error, and it never panics. The field of that name is the one
  \<open>fieldByName\<close> returns: the first field of the object whose name is the head, all the
  fields before it being named by strings. A head missing from the index gives
  \<open>field ... does not exist in object\<close>; a body that is not a local gives
  \<open>field ... doesn't have local scope\<close>, a local whose body is not an object gives
  \<open>expected body to be an object\<close>, and these messages differ from the first.
\<close>

theorem lookup_multi_segment:
  assumes "path \<noteq> []"
  shows "(\<forall>loc. lookup om ob (name # path) = Inr loc \<longrightarrow>
            (\<exists>lr fld binds nestedObject l.
               om (objAddr ob, name) = Some lr \<and> fieldByName ob name = Inr fld \<and>
               fld \<in> set (Fields ob) \<and> fieldName fld = Inr name \<and>
               Body fld = Local binds (DesugaredObject nestedObject) l \<and>
               lookup om nestedObject path = Inr loc)) \<and>
         (\<forall>fld. fieldByName ob name = Inr fld \<longleftrightarrow>
            (\<exists>pre post. Fields ob = pre @ fld # post \<and> fieldName fld = Inr name \<and>
               (\<forall>g \<in> set pre. \<exists>n. fieldName g = Inr n \<and> n \<noteq> name))) \<and>
         (\<forall>lr fld binds nestedObject l.
            om (objAddr ob, name) = Some lr \<and> fieldByName ob name = Inr fld \<and>
            Body fld = Local binds (DesugaredObject nestedObject) l \<longrightarrow>
            lookup om ob (name # path) = lookup om nestedObject path) \<and>
         (\<not> (\<exists>lr fld binds nestedObject l.
               om (objAddr ob, name) = Some lr \<and> fieldByName ob name = Inr fld \<and>
               Body fld = Local binds (DesugaredObject nestedObject) l) \<longrightarrow>
            (\<exists>msg. lookup om ob (name # path) = Inl (Error msg))) \<and>
         (\<forall>r. lookup om ob (name # path) \<noteq> Inl (Panic r)) \<and>
         (om (objAddr ob, name) = None \<longrightarrow>
            lookup om ob (name # path) =
              Inl (Error (''field '' @ name @ '' does not exist in object''))) \<and>
         (\<forall>lr fld. om (objAddr ob, name) = Some lr \<and> fieldByName ob name = Inr fld \<and>
            (\<forall>binds body l. Body fld \<noteq> Local binds body l) \<longrightarrow>
            lookup om ob (name # path) =
              Inl (Error (''field '' @ name @ '' doesn't have local scope''))) \<and>
         (\<forall>lr fld binds body l. om (objAddr ob, name) = Some lr \<and>
            fieldByName ob name = Inr fld \<and> Body fld = Local binds body l \<and>
            (\<forall>nestedObject. body \<noteq> DesugaredObject nestedObject) \<longrightarrow>
            lookup om ob (name # path) =
              Inl (Error (''expected body to be an object; it was '' @ typeName body))) \<and>
         ''field '' @ name @ '' does not exist in object'' \<noteq>
           ''field '' @ name @ '' doesn't have local scope'' \<and>
         (\<forall>tn. ''field '' @ name @ '' does not exist in object'' \<noteq>
           ''expected body to be an object; it was '' @ tn)"
proof -
  note step = lookup_step [OF assms, of om ob name]
  have succ0: "\<forall>loc. lookup om ob (name # path) = Inr loc \<longrightarrow>
            (\<exists>lr fld binds nestedObject l.
               om (objAddr ob, name) = Some lr \<and> fieldByName ob name = Inr fld \<and>
               Body fld = Local binds (DesugaredObject nestedObject) l \<and>
               lookup om nestedObject path = Inr loc)"
    unfolding step
    by (auto split: option.splits sum.splits node.splits)
  have succ: "\<forall>loc. lookup om ob (name # path) = Inr loc \<longrightarrow>
            (\<exists>lr fld binds nestedObject l.
               om (objAddr ob, name) = Some lr \<and> fieldByName ob name = Inr fld \<and>
               fld \<in> set (Fields ob) \<and> fieldName fld = Inr name \<and>
               Body fld = Local binds (DesugaredObject nestedObject) l \<and>
               lookup om nestedObject path = Inr loc)"
  proof (intro allI impI)
    fix loc
    assume "lookup om ob (name # path) = Inr loc"
    with succ0 obtain lr fld binds nestedObject l where
      h: "om (objAddr ob, name) = Some lr" "fieldByName ob name = Inr fld"
        "Body fld = Local binds (DesugaredObject nestedObject) l"
        "lookup om nestedObject path = Inr loc"
      by blast
    from h(2) have "fld \<in> set (Fields ob) \<and> fieldName fld = Inr name"
      by (rule fieldByName_field)
    with h show "\<exists>lr fld binds nestedObject l.
               om (objAddr ob, name) = Some lr \<and> fieldByName ob name = Inr fld \<and>
               fld \<in> set (Fields ob) \<and> fieldName fld = Inr name \<and>
               Body fld = Local binds (DesugaredObject nestedObject) l \<and>
               lookup om nestedObject path = Inr loc"
      by blast
  qed
  have field: "\<forall>fld. fieldByName ob name = Inr fld \<longleftrightarrow>
            (\<exists>pre post. Fields ob = pre @ fld # post \<and> fieldName fld = Inr name \<and>
               (\<forall>g \<in> set pre. \<exists>n. fieldName g = Inr n \<and> n \<noteq> name))"
    by (intro allI fieldByName_Inr)
  have rec: "\<forall>lr fld binds nestedObject l.
            om (objAddr ob, name) = Some lr \<and> fieldByName ob name = Inr fld \<and>
            Body fld = Local binds (DesugaredObject nestedObject) l \<longrightarrow>
            lookup om ob (name # path) = lookup om nestedObject path"
    unfolding step by auto
  have nopanic: "\<forall>r. lookup om ob (name # path) \<noteq> Inl (Panic r)"
    using lookup_error_or_ok [of "name # path" om ob] by auto
  have other: "\<not> (\<exists>lr fld binds nestedObject l.
               om (objAddr ob, name) = Some lr \<and> fieldByName ob name = Inr fld \<and>
               Body fld = Local binds (DesugaredObject nestedObject) l) \<longrightarrow>
            (\<exists>msg. lookup om ob (name # path) = Inl (Error msg))"
  proof
    assume no: "\<not> (\<exists>lr fld binds nestedObject l.
               om (objAddr ob, name) = Some lr \<and> fieldByName ob name = Inr fld \<and>
               Body fld = Local binds (DesugaredObject nestedObject) l)"
    show "\<exists>msg. lookup om ob (name # path) = Inl (Error msg)"
    proof (cases "lookup om ob (name # path)")
      case (Inl e)
      with lookup_error_or_ok [of "name # path" om ob e] show ?thesis by auto
    next
      case (Inr loc)
      with succ0 no show ?thesis by blast
    qed
  qed
  have missing: "om (objAddr ob, name) = None \<longrightarrow>
            lookup om ob (name # path) =
              Inl (Error (''field '' @ name @ '' does not exist in object''))"
    unfolding step by simp
  have nolocal: "\<forall>lr fld. om (objAddr ob, name) = Some lr \<and> fieldByName ob name = Inr fld \<and>
            (\<forall>binds body l. Body fld \<noteq> Local binds body l) \<longrightarrow>
            lookup om ob (name # path) =
              Inl (Error (''field '' @ name @ '' doesn't have local scope''))"
    unfolding step by (auto split: node.splits)
  have noobject: "\<forall>lr fld binds body l. om (objAddr ob, name) = Some lr \<and>
            fieldByName ob name = Inr fld \<and> Body fld = Local binds body l \<and>
            (\<forall>nestedObject. body \<noteq> DesugaredObject nestedObject) \<longrightarrow>
            lookup om ob (name # path) =
              Inl (Error (''expected body to be an object; it was '' @ typeName body))"
    unfolding step by (auto split: node.splits)
  have d1: "''field '' @ name @ '' does not exist in object'' \<noteq>
           ''field '' @ name @ '' doesn't have local scope''"
    by simp
  have d2: "\<forall>tn. ''field '' @ name @ '' does not exist in object'' \<noteq>
           ''expected body to be an object; it was '' @ tn"
    by simp
  from succ field rec other nopanic missing nolocal noobject d1 d2 show ?thesis
    by (intro conjI)
qed

lemma mapperAB_added:
  "add Map.empty objectAB ''a'' = Inr [(1, ''a'') \<mapsto> createRange ''file.jsonnet'' 1 2 1 3] \<and>
   add [(1, ''a'') \<mapsto> createRange ''file.jsonnet'' 1 2 1 3] nestedB ''b'' = Inr mapperAB"
  by (simp add: add_def objectAB_def nestedB_def mapperAB_def)

theorem lookup_multi_segment_witness:
  "[''b''] \<noteq> [] \<and>
   lookup mapperAB objectAB [''a'', ''b''] =
     Inr \<lparr>locURI = ''file.jsonnet'', locRange = NewRangeFromCoords 1 6 1 7\<rparr> \<and>
   lookup mapperAB objectAB [''b'', ''b''] = Inl (Error ''field b does not exist in object'') \<and>
   lookup mapperXA objectXA [''a'', ''b''] =
     Inl (Error ''expected body to be an object; it was *ast.LiteralString'') \<and>
   lookup mapperXA objectXA [''x'', ''b''] =
     Inr \<lparr>locURI = ''file.jsonnet'', locRange = NewRangeFromCoords 1 6 1 7\<rparr>"
proof -
  have ne: "[''b''] \<noteq> []" by simp
  have ix: "mapperAB (objAddr objectAB, ''a'') = Some (createRange ''file.jsonnet'' 1 2 1 3) \<and>
      fieldByName objectAB ''a'' =
        Inr (DesugaredObjectField (LiteralString ''a'' (createRange ''file.jsonnet'' 1 2 1 3))
               (Local [] (DesugaredObject nestedB) (createRange ''file.jsonnet'' 1 5 1 13))) \<and>
      Body (DesugaredObjectField (LiteralString ''a'' (createRange ''file.jsonnet'' 1 2 1 3))
               (Local [] (DesugaredObject nestedB) (createRange ''file.jsonnet'' 1 5 1 13))) =
        Local [] (DesugaredObject nestedB) (createRange ''file.jsonnet'' 1 5 1 13)"
    by (simp add: mapperAB_def objectAB_def fieldByName_def)
  have nb: "lookup mapperAB nestedB [''b''] =
     Inr \<lparr>locURI = ''file.jsonnet'', locRange = NewRangeFromCoords 1 6 1 7\<rparr>"
    "lookup mapperXA nestedB [''b''] =
     Inr \<lparr>locURI = ''file.jsonnet'', locRange = NewRangeFromCoords 1 6 1 7\<rparr>"
    by (simp_all add: mapperAB_def mapperXA_def nestedB_def LocationFromJsonnet_def
        FromJsonnetRange_def createRange_def createLoc_def)
  note ab = lookup_multi_segment [OF ne, of mapperAB objectAB "''a''"]
  note rec_ab = ab [THEN conjunct2, THEN conjunct2, THEN conjunct1, rule_format, OF ix]
  from rec_ab nb(1) have 1: "lookup mapperAB objectAB [''a'', ''b''] =
     Inr \<lparr>locURI = ''file.jsonnet'', locRange = NewRangeFromCoords 1 6 1 7\<rparr>"
    by simp
  from lookup_multi_segment [OF ne, of mapperAB objectAB "''b''"]
  have 2: "lookup mapperAB objectAB [''b'', ''b''] = Inl (Error ''field b does not exist in object'')"
    by (simp add: mapperAB_def objectAB_def)
  have xa: "mapperXA (objAddr objectXA, ''a'') = Some (createRange ''file.jsonnet'' 1 12 1 13) \<and>
      fieldByName objectXA ''a'' =
        Inr (DesugaredObjectField (LiteralString ''a'' (createRange ''file.jsonnet'' 1 12 1 13))
               (Local [] (LiteralString ''str'' (createRange ''file.jsonnet'' 1 14 1 19))
                  (createRange ''file.jsonnet'' 1 14 1 19))) \<and>
      Body (DesugaredObjectField (LiteralString ''a'' (createRange ''file.jsonnet'' 1 12 1 13))
               (Local [] (LiteralString ''str'' (createRange ''file.jsonnet'' 1 14 1 19))
                  (createRange ''file.jsonnet'' 1 14 1 19))) =
        Local [] (LiteralString ''str'' (createRange ''file.jsonnet'' 1 14 1 19))
          (createRange ''file.jsonnet'' 1 14 1 19) \<and>
      (\<forall>nestedObject. LiteralString ''str'' (createRange ''file.jsonnet'' 1 14 1 19) \<noteq>
         DesugaredObject nestedObject)"
    by (simp add: mapperXA_def objectXA_def fieldByName_def)
  note xa_thm = lookup_multi_segment [OF ne, of mapperXA objectXA "''a''"]
  note noobj = xa_thm [THEN conjunct2, THEN conjunct2, THEN conjunct2, THEN conjunct2,
      THEN conjunct2, THEN conjunct2, THEN conjunct2, THEN conjunct1, rule_format, OF xa]
  from noobj have 3: "lookup mapperXA objectXA [''a'', ''b''] =
     Inl (Error ''expected body to be an object; it was *ast.LiteralString'')"
    by simp
  have xx: "mapperXA (objAddr objectXA, ''x'') = Some (createRange ''file.jsonnet'' 1 2 1 3) \<and>
      fieldByName objectXA ''x'' =
        Inr (DesugaredObjectField (LiteralString ''x'' (createRange ''file.jsonnet'' 1 2 1 3))
               (Local [] (DesugaredObject nestedB) (createRange ''file.jsonnet'' 1 4 1 11))) \<and>
      Body (DesugaredObjectField (LiteralString ''x'' (createRange ''file.jsonnet'' 1 2 1 3))
               (Local [] (DesugaredObject nestedB) (createRange ''file.jsonnet'' 1 4 1 11))) =
        Local [] (DesugaredObject nestedB) (createRange ''file.jsonnet'' 1 4 1 11)"
    by (simp add: mapperXA_def objectXA_def fieldByName_def)
  note xx_thm = lookup_multi_segment [OF ne, of mapperXA objectXA "''x''"]
  note rec_xx = xx_thm [THEN conjunct2, THEN conjunct2, THEN conjunct1, rule_format, OF xx]
  from rec_xx nb(2) have 4: "lookup mapperXA objectXA [''x'', ''b''] =
     Inr \<lparr>locURI = ''file.jsonnet'', locRange = NewRangeFromCoords 1 6 1 7\<rparr>"
    by simp
  from ne 1 2 3 4 show ?thesis by (intro conjI)
qed

subsection \<open>Switches with no matching arm\<close>

text \<open>
  C2, as amended: for a token of a type with no arm, and a parent that is not nil,
  \<open>Locate\<close> logs a warning and returns the error \<open>unable to locate ...\<close>. For a node of a
  kind with no arm (any kind but a desugared object, a function, an index, a local and a
  variable) \<open>idNode\<close> panics, in its default arm. \<open>Handle\<close> never panics: a panic of the
  operation it runs is recovered, and \<open>Handle\<close> returns without a reply.
\<close>

theorem unmatched_kinds:
  "(\<forall>tn. Locate ls (TokOther tn) (Some p) source =
      ([Warnf (''previsiting an unlocatable '' @ tn @ '' with parent '' @
               tokenTypeName (Token p))],
       Inl (Error (''unable to locate '' @ tn)))) \<and>
   (\<forall>n. (\<forall>ob. n \<noteq> DesugaredObject ob) \<and> (\<forall>ps b l. n \<noteq> Function ps b l) \<and>
        (\<forall>t i l. n \<noteq> Index t i l) \<and> (\<forall>bs b l. n \<noteq> Local bs b l) \<and>
        (\<forall>i l. n \<noteq> Var i l) \<longrightarrow>
        idNode (Suc calls) parent indexPath isIn n pos =
          Some (Inl (Panic (''unable to find nodes of type '' @ typeName n)))) \<and>
   (\<forall>r. Handle operations replyWithError reply req \<noteq> Inl (Panic r)) \<and>
   (\<forall>fn r. operations (Method req) = Some fn \<and> fn req = Inl (Panic r) \<longrightarrow>
      Handle operations replyWithError reply req = Inr [])"
proof -
  have a: "\<forall>tn. Locate ls (TokOther tn) (Some p) source =
      ([Warnf (''previsiting an unlocatable '' @ tn @ '' with parent '' @
               tokenTypeName (Token p))],
       Inl (Error (''unable to locate '' @ tn)))"
    by (simp add: withParent_def)
  have b: "\<forall>n. (\<forall>ob. n \<noteq> DesugaredObject ob) \<and> (\<forall>ps b l. n \<noteq> Function ps b l) \<and>
        (\<forall>t i l. n \<noteq> Index t i l) \<and> (\<forall>bs b l. n \<noteq> Local bs b l) \<and>
        (\<forall>i l. n \<noteq> Var i l) \<longrightarrow>
        idNode (Suc calls) parent indexPath isIn n pos =
          Some (Inl (Panic (''unable to find nodes of type '' @ typeName n)))"
  proof (intro allI impI)
    fix n
    assume "(\<forall>ob. n \<noteq> DesugaredObject ob) \<and> (\<forall>ps b l. n \<noteq> Function ps b l) \<and>
        (\<forall>t i l. n \<noteq> Index t i l) \<and> (\<forall>bs b l. n \<noteq> Local bs b l) \<and>
        (\<forall>i l. n \<noteq> Var i l)"
    then show "idNode (Suc calls) parent indexPath isIn n pos =
          Some (Inl (Panic (''unable to find nodes of type '' @ typeName n)))"
      by (cases n) simp_all
  qed
  have c: "\<forall>r. Handle operations replyWithError reply req \<noteq> Inl (Panic r)"
    by (auto simp: Handle_def handleBody_def nilDereference_def
        split: sum.splits fault.splits option.splits)
  have d: "\<forall>fn r. operations (Method req) = Some fn \<and> fn req = Inl (Panic r) \<longrightarrow>
      Handle operations replyWithError reply req = Inr []"
    by (simp add: Handle_def handleBody_def)
  from a b c d show ?thesis by (intro conjI)
qed

theorem unmatched_kinds_witness:
  "Locate noLocators (TokOther ''ast.Object'') (Some rootLocatable) ''local a=1;a'' =
     ([Warnf ''previsiting an unlocatable ast.Object with parent *ast.Local''],
      Inl (Error ''unable to locate ast.Object'')) \<and>
   idNode 1 noParent noIndexPath IsInJsonnetRange
     (Partial (createRange ''file.jsonnet'' 1 13 1 13)) (New 1 13) =
     Some (Inl (Panic ''unable to find nodes of type *astext.Partial'')) \<and>
   Handle crashingOperations noReplyError noReplyError highlightRequest = Inr []"
proof -
  have op: "crashingOperations (Method highlightRequest) = Some crashingHighlight \<and>
      crashingHighlight highlightRequest =
        Inl (Panic ''unable to find nodes of type *ast.LiteralString'')"
    by (simp add: crashingOperations_def highlightRequest_def crashingHighlight_def)
  note t = unmatched_kinds [of noLocators rootLocatable "''local a=1;a''" 0 noParent noIndexPath
      IsInJsonnetRange "New 1 13" crashingOperations noReplyError noReplyError highlightRequest]
  from t have 1: "Locate noLocators (TokOther ''ast.Object'') (Some rootLocatable) ''local a=1;a'' =
     ([Warnf (''previsiting an unlocatable '' @ ''ast.Object'' @ '' with parent '' @
               tokenTypeName (Token rootLocatable))],
      Inl (Error (''unable to locate '' @ ''ast.Object'')))"
    by blast
  from t have "\<forall>n. (\<forall>ob. n \<noteq> DesugaredObject ob) \<and> (\<forall>ps b l. n \<noteq> Function ps b l) \<and>
        (\<forall>t i l. n \<noteq> Index t i l) \<and> (\<forall>bs b l. n \<noteq> Local bs b l) \<and>
        (\<forall>i l. n \<noteq> Var i l) \<longrightarrow>
        idNode (Suc 0) noParent noIndexPath IsInJsonnetRange n (New 1 13) =
          Some (Inl (Panic (''unable to find nodes of type '' @ typeName n)))"
    by blast
  from this [rule_format, of "Partial (createRange ''file.jsonnet'' 1 13 1 13)"]
  have 2: "idNode (Suc 0) noParent noIndexPath IsInJsonnetRange
     (Partial (createRange ''file.jsonnet'' 1 13 1 13)) (New 1 13) =
     Some (Inl (Panic (''unable to find nodes of type '' @
        typeName (Partial (createRange ''file.jsonnet'' 1 13 1 13)))))"
    by simp
  from t op have 3: "Handle crashingOperations noReplyError noReplyError highlightRequest = Inr []"
    by blast
  from 1 2 3 show ?thesis
    by (simp add: rootLocatable_def localA_def)
qed

text \<open>
  The claim that \<open>idNode\<close> handles every kind of node without panicking fails on a string
  literal.
\<close>

theorem idNode_default_arm_counterexample:
  "idNode 1 noParent noIndexPath IsInJsonnetRange
     (LiteralString ''a'' (createRange ''file.jsonnet'' 1 9 1 12)) (New 1 10) =
   Some (Inl (Panic ''unable to find nodes of type *ast.LiteralString''))"
  by simp

subsection \<open>fieldNameAt\<close>

lemma fieldNameAtLoop_skip:
  "\<not> isIn pos loc' \<Longrightarrow>
   fieldNameAtLoop isIn posString ((k', loc') # rest) pos = fieldNameAtLoop isIn posString rest pos"
  by simp

lemma fieldNameAtLoop_hit:
  "isIn pos loc \<Longrightarrow>
   fieldNameAtLoop isIn posString ((k, loc) # rest) pos =
     (case k of
        KeyString str \<Rightarrow> (str, FromJsonnetRange loc, None)
      | KeyNode (Var i l) \<Rightarrow> ([], zeroRange, Some (Error ''variable keys are unsupported''))
      | _ \<Rightarrow> ([], zeroRange, Some (Error (''invalid field name type '' @ keyTypeName k))))"
  by simp

lemma fieldNameAtLoop_first:
  assumes "find (\<lambda>e. isIn pos (snd e)) fls = Some (k, loc)"
  shows "fieldNameAtLoop isIn posString fls pos =
     (case k of
        KeyString str \<Rightarrow> (str, FromJsonnetRange loc, None)
      | KeyNode (Var i l) \<Rightarrow> ([], zeroRange, Some (Error ''variable keys are unsupported''))
      | _ \<Rightarrow> ([], zeroRange, Some (Error (''invalid field name type '' @ keyTypeName k))))"
  using assms
proof (induction fls)
  case Nil
  then show ?case by simp
next
  case (Cons e fls)
  obtain k' loc' where e: "e = (k', loc')" by (cases e)
  show ?case
  proof (cases "isIn pos loc'")
    case True
    with Cons.prems e have e': "e = (k, loc)" by simp
    from True e e' have "isIn pos loc" by simp
    then show ?thesis unfolding e' by (rule fieldNameAtLoop_hit)
  next
    case False
    with Cons.prems e have "find (\<lambda>e. isIn pos (snd e)) fls = Some (k, loc)" by simp
    then have ih: "fieldNameAtLoop isIn posString fls pos =
     (case k of
        KeyString str \<Rightarrow> (str, FromJsonnetRange loc, None)
      | KeyNode (Var i l) \<Rightarrow> ([], zeroRange, Some (Error ''variable keys are unsupported''))
      | _ \<Rightarrow> ([], zeroRange, Some (Error (''invalid field name type '' @ keyTypeName k))))"
      by (rule Cons.IH)
    have "fieldNameAtLoop isIn posString (e # fls) pos = fieldNameAtLoop isIn posString fls pos"
      unfolding e by (rule fieldNameAtLoop_skip) (rule False)
    then show ?thesis using ih by (rule trans)
  qed
qed

text \<open>
  C4, as amended: where a position lies inside a recorded name range, \<open>fieldNameAt\<close>
  decides by the first key it visits whose range contains the position (the only such
  key when the name ranges are disjoint). For a string key it returns the name and the
  range; for a variable key the error \<open>variable keys are unsupported\<close> and the zero range;
  for every other key the error \<open>invalid field name type ...\<close> and the zero range.
\<close>

theorem fieldNameAt_first_key:
  assumes "find (\<lambda>e. isIn pos (snd e)) (FieldLocs ob) = Some (k, loc)"
  shows "(\<forall>str. k = KeyString str \<longrightarrow>
            fieldNameAt isIn posString ob pos = (str, FromJsonnetRange loc, None)) \<and>
         (\<forall>i l. k = KeyNode (Var i l) \<longrightarrow>
            fieldNameAt isIn posString ob pos =
              ([], zeroRange, Some (Error ''variable keys are unsupported''))) \<and>
         ((\<forall>str. k \<noteq> KeyString str) \<and> (\<forall>i l. k \<noteq> KeyNode (Var i l)) \<longrightarrow>
            fieldNameAt isIn posString ob pos =
              ([], zeroRange, Some (Error (''invalid field name type '' @ keyTypeName k))))"
proof -
  have eq: "fieldNameAt isIn posString ob pos =
     (case k of
        KeyString str \<Rightarrow> (str, FromJsonnetRange loc, None)
      | KeyNode (Var i l) \<Rightarrow> ([], zeroRange, Some (Error ''variable keys are unsupported''))
      | _ \<Rightarrow> ([], zeroRange, Some (Error (''invalid field name type '' @ keyTypeName k))))"
    unfolding fieldNameAt_def using assms by (rule fieldNameAtLoop_first)
  show ?thesis
  proof (cases k)
    case (KeyString str)
    with eq show ?thesis by simp
  next
    case (KeyIdentifier i)
    with eq show ?thesis by simp
  next
    case (KeyNode n)
    with eq show ?thesis by (cases n) simp_all
  qed
qed

lemma in_1_2_1_5: "IsInJsonnetRange (New 1 3) (createRange ''file.jsonnet'' 1 2 1 5)"
  by (simp add: IsInJsonnetRange_def notAfter_def New_def createRange_def createLoc_def)

lemma in_1_2_1_11: "IsInJsonnetRange (New 1 3) (createRange ''file.jsonnet'' 1 2 1 11)"
  by (simp add: IsInJsonnetRange_def notAfter_def New_def createRange_def createLoc_def)

lemma FromJsonnetRange_createRange:
  "FromJsonnetRange (createRange f a b c d) = NewRangeFromCoords a b c d"
  by (simp add: FromJsonnetRange_def createRange_def createLoc_def)

theorem fieldNameAt_first_key_witness:
  "fieldNameAt IsInJsonnetRange noString variableKeyObject (New 1 3) =
     ([], zeroRange, Some (Error ''variable keys are unsupported'')) \<and>
   fieldNameAt IsInJsonnetRange noString stringKeyObject (New 1 3) =
     (''a'', NewRangeFromCoords 1 2 1 5, None) \<and>
   fieldNameAt IsInJsonnetRange noString overlappingKeysObject (New 1 3) =
     (''a'', NewRangeFromCoords 1 2 1 5, None)"
proof -
  have f1: "find (\<lambda>e. IsInJsonnetRange (New 1 3) (snd e)) (FieldLocs variableKeyObject) =
      Some (KeyNode (Var ''a'' (createRange ''file.jsonnet'' 1 3 1 4)),
            createRange ''file.jsonnet'' 1 2 1 5)"
    by (simp add: variableKeyObject_def in_1_2_1_5)
  have f2: "find (\<lambda>e. IsInJsonnetRange (New 1 3) (snd e)) (FieldLocs stringKeyObject) =
      Some (KeyString ''a'', createRange ''file.jsonnet'' 1 2 1 5)"
    by (simp add: stringKeyObject_def in_1_2_1_5)
  have f3: "find (\<lambda>e. IsInJsonnetRange (New 1 3) (snd e)) (FieldLocs overlappingKeysObject) =
      Some (KeyString ''a'', createRange ''file.jsonnet'' 1 2 1 5)"
    by (simp add: overlappingKeysObject_def in_1_2_1_5)
  from fieldNameAt_first_key [of IsInJsonnetRange "New 1 3" variableKeyObject
      "KeyNode (Var ''a'' (createRange ''file.jsonnet'' 1 3 1 4))"
      "createRange ''file.jsonnet'' 1 2 1 5" noString, OF f1]
  have 1: "fieldNameAt IsInJsonnetRange noString variableKeyObject (New 1 3) =
     ([], zeroRange, Some (Error ''variable keys are unsupported''))"
    by blast
  from fieldNameAt_first_key [of IsInJsonnetRange "New 1 3" stringKeyObject "KeyString ''a''"
      "createRange ''file.jsonnet'' 1 2 1 5" noString, OF f2]
  have 2: "fieldNameAt IsInJsonnetRange noString stringKeyObject (New 1 3) =
     (''a'', FromJsonnetRange (createRange ''file.jsonnet'' 1 2 1 5), None)"
    by blast
  from fieldNameAt_first_key [of IsInJsonnetRange "New 1 3" overlappingKeysObject "KeyString ''a''"
      "createRange ''file.jsonnet'' 1 2 1 5" noString, OF f3]
  have 3: "fieldNameAt IsInJsonnetRange noString overlappingKeysObject (New 1 3) =
     (''a'', FromJsonnetRange (createRange ''file.jsonnet'' 1 2 1 5), None)"
    by blast
  from 1 2 3 show ?thesis by (simp add: FromJsonnetRange_createRange)
qed

text \<open>
  As stated for every computed key, the claim fails: a key that is an expression other
  than a variable falls to the default arm of the type switch, whose error is not the
  \<open>unsupported\<close> one.
\<close>

theorem fieldNameAt_computed_key_counterexample:
  "(KeyNode (OtherNode ''*ast.Binary''
              [LiteralString ''a'' (createRange ''file.jsonnet'' 1 3 1 6),
               LiteralString ''b'' (createRange ''file.jsonnet'' 1 7 1 10)]
              (createRange ''file.jsonnet'' 1 3 1 10)),
      createRange ''file.jsonnet'' 1 2 1 11) \<in> set (FieldLocs computedKeyObject) \<and>
   IsInJsonnetRange (New 1 3) (createRange ''file.jsonnet'' 1 2 1 11) \<and>
   fieldNameAt IsInJsonnetRange noString computedKeyObject (New 1 3) =
     ([], zeroRange, Some (Error ''invalid field name type *ast.Binary'')) \<and>
   fieldNameAt IsInJsonnetRange noString computedKeyObject (New 1 3) \<noteq>
     ([], zeroRange, Some (Error ''variable keys are unsupported''))"
  by (simp add: computedKeyObject_def fieldNameAt_def in_1_2_1_11)

subsection \<open>resolveIndex\<close>

text \<open>
  C3: on a source that ends with a dotted path, a dot and two closers, \<open>resolveIndex\<close>
  does not return the segments of the path alone: the closers come back as a last
  segment, because \<open>removeEmpty\<close> drops only a segment that is one closer. With one closer
  the segments are returned as the claim says.
\<close>

theorem resolveIndex_two_closers:
  "resolveIndex quote ''{x: f(o.)}'' = Inr [''o'', '')}''] \<and>
   resolveIndex quote ''{x: f(o.)'' = Inr [''o'']"
  by (simp add: resolveIndex_def reIndex_def Plus_def wordChar_def dotChar_def closerChar_def
      ignoredIndexItems_def)

subsection \<open>updateNodeCache\<close>

lemma running_neq_complete: "runningMsg quote file \<noteq> completeMsg quote file"
  by (simp add: runningMsg_def completeMsg_def)

lemma selectLoop_no_timer_count:
  assumes "FromTimer \<notin> set msgs"
  shows "count_list (selectLoop quote file sent msgs) (ShowMessage (runningMsg quote file)) = 0"
proof (cases msgs)
  case Nil
  then show ?thesis by simp
next
  case (Cons x rest)
  with assms show ?thesis by (cases x) (simp_all add: running_neq_complete)
qed

lemma selectLoop_no_timer_complete:
  assumes "FromTimer \<notin> set msgs"
  shows "ShowMessage (completeMsg quote file) \<in> set (selectLoop quote file True msgs) \<longleftrightarrow>
         (\<exists>rest. msgs = FromDone # rest)"
proof (cases msgs)
  case Nil
  then show ?thesis by simp
next
  case (Cons x rest)
  with assms show ?thesis by (cases x) simp_all
qed

text \<open>
  C5: the timer fires at most once, so its channel delivers at most one message. If the
  first message received is the rebuild's, from \<open>done\<close> or from \<open>errCh\<close>, no notification
  is sent. If it is the timer's, the running notification is sent exactly once, and the
  complete notification is sent exactly when the next message is from \<open>done\<close>. The
  running notification is never sent twice.
\<close>

theorem updateNodeCache_notifications:
  assumes "toPath uriStr = Inr path" and "count_list msgs FromTimer \<le> 1"
  shows "(\<forall>rest. msgs = FromDone # rest \<longrightarrow> updateNodeCache quote toPath uriStr msgs = []) \<and>
         (\<forall>err rest. msgs = FromErrCh err # rest \<longrightarrow>
            (\<forall>m. ShowMessage m \<notin> set (updateNodeCache quote toPath uriStr msgs))) \<and>
         (\<forall>rest. msgs = FromTimer # rest \<longrightarrow>
            count_list (updateNodeCache quote toPath uriStr msgs)
              (ShowMessage (runningMsg quote (splitFile path))) = 1 \<and>
            (ShowMessage (completeMsg quote (splitFile path)) \<in> set (updateNodeCache quote toPath uriStr msgs)
               \<longleftrightarrow> (\<exists>rest'. rest = FromDone # rest'))) \<and>
         count_list (updateNodeCache quote toPath uriStr msgs)
           (ShowMessage (runningMsg quote (splitFile path))) \<le> 1"
proof -
  let ?file = "splitFile path"
  have u: "updateNodeCache quote toPath uriStr msgs = selectLoop quote ?file False msgs"
    using assms(1) by (simp add: updateNodeCache_def)
  have a: "\<forall>rest. msgs = FromDone # rest \<longrightarrow> updateNodeCache quote toPath uriStr msgs = []"
    unfolding u by simp
  have b: "\<forall>err rest. msgs = FromErrCh err # rest \<longrightarrow>
            (\<forall>m. ShowMessage m \<notin> set (updateNodeCache quote toPath uriStr msgs))"
    unfolding u by simp
  have c: "\<forall>rest. msgs = FromTimer # rest \<longrightarrow>
            count_list (updateNodeCache quote toPath uriStr msgs)
              (ShowMessage (runningMsg quote (splitFile path))) = 1 \<and>
            (ShowMessage (completeMsg quote (splitFile path)) \<in> set (updateNodeCache quote toPath uriStr msgs)
               \<longleftrightarrow> (\<exists>rest'. rest = FromDone # rest'))"
  proof (intro allI impI)
    fix rest assume m: "msgs = FromTimer # rest"
    with assms(2) have "count_list rest FromTimer = 0" by simp
    then have nt: "FromTimer \<notin> set rest" by (simp add: count_list_0_iff)
    have u': "updateNodeCache quote toPath uriStr (FromTimer # rest) =
        selectLoop quote ?file False (FromTimer # rest)"
      using assms(1) by (simp add: updateNodeCache_def)
    have 1: "count_list (selectLoop quote ?file False (FromTimer # rest)) (ShowMessage (runningMsg quote ?file)) = 1"
      using selectLoop_no_timer_count [OF nt, of quote ?file True] by simp
    have 2: "ShowMessage (completeMsg quote ?file) \<in> set (selectLoop quote ?file False (FromTimer # rest))
               \<longleftrightarrow> (\<exists>rest'. rest = FromDone # rest')"
      using selectLoop_no_timer_complete [OF nt, of quote ?file] running_neq_complete [of quote ?file]
      by auto
    from 1 2 show "count_list (updateNodeCache quote toPath uriStr msgs)
              (ShowMessage (runningMsg quote (splitFile path))) = 1 \<and>
            (ShowMessage (completeMsg quote (splitFile path)) \<in> set (updateNodeCache quote toPath uriStr msgs)
               \<longleftrightarrow> (\<exists>rest'. rest = FromDone # rest'))"
      unfolding m u' by (intro conjI)
  qed
  have d: "count_list (updateNodeCache quote toPath uriStr msgs)
           (ShowMessage (runningMsg quote (splitFile path))) \<le> 1"
  proof (cases msgs)
    case Nil
    then show ?thesis unfolding u by simp
  next
    case (Cons x rest)
    show ?thesis
    proof (cases x)
      case (FromErrCh err)
      with Cons show ?thesis unfolding u by simp
    next
      case FromDone
      with Cons show ?thesis unfolding u by simp
    next
      case FromTimer
      with Cons c show ?thesis by simp
    qed
  qed
  from a b c d show ?thesis by (intro conjI)
qed

theorem updateNodeCache_notifications_witness:
  "updateNodeCache quoted toPathExample ''file:///tmp/a.jsonnet'' [FromDone, FromTimer] = [] \<and>
   count_list (updateNodeCache quoted toPathExample ''file:///tmp/a.jsonnet'' [FromTimer, FromDone])
     (ShowMessage (runningMsg quoted ''a.jsonnet'')) = 1 \<and>
   ShowMessage (completeMsg quoted ''a.jsonnet'') \<in>
     set (updateNodeCache quoted toPathExample ''file:///tmp/a.jsonnet'' [FromTimer, FromDone]) \<and>
   ShowMessage (completeMsg quoted ''a.jsonnet'') \<notin>
     set (updateNodeCache quoted toPathExample ''file:///tmp/a.jsonnet''
            [FromTimer, FromErrCh (Error ''parse'')])"
proof -
  have p: "toPathExample ''file:///tmp/a.jsonnet'' = Inr ''/tmp/a.jsonnet''"
    by (simp add: toPathExample_def)
  have f: "splitFile ''/tmp/a.jsonnet'' = ''a.jsonnet''"
    by (simp add: splitFile_def)
  have c1: "count_list [FromDone, FromTimer] FromTimer \<le> 1"
    and c2: "count_list [FromTimer, FromDone] FromTimer \<le> 1"
    and c3: "count_list [FromTimer, FromErrCh (Error ''parse'')] FromTimer \<le> 1"
    by simp_all
  from updateNodeCache_notifications
      [of toPathExample "''file:///tmp/a.jsonnet''" "''/tmp/a.jsonnet''" "[FromDone, FromTimer]" quoted,
       OF p c1]
    updateNodeCache_notifications
      [of toPathExample "''file:///tmp/a.jsonnet''" "''/tmp/a.jsonnet''" "[FromTimer, FromDone]" quoted,
       OF p c2]
    updateNodeCache_notifications
      [of toPathExample "''file:///tmp/a.jsonnet''" "''/tmp/a.jsonnet''"
          "[FromTimer, FromErrCh (Error ''parse'')]" quoted,
       OF p c3]
    f
  show ?thesis by simp
qed

subsection \<open>HoverAtLocation\<close>

text \<open>
  C6: once the visitor is built, a nil locatable and a resolution that fails with
  \<open>ErrUnresolvable\<close> both give the empty hover and no error; every other error of the
  resolution, and every error of finding the token, is returned.
\<close>

theorem HoverAtLocation_unresolvable_is_empty:
  assumes "newHoverVisitor filename r \<lparr>Line = l, Column = c\<rparr> = Inr v"
  shows "(tokenAtLocation v = Inr None \<longrightarrow>
            HoverAtLocation newHoverVisitor tokenAtLocation resolve filename r l c =
              Inr emptyHover) \<and>
         (\<forall>locatable. tokenAtLocation v = Inr (Some locatable) \<and>
            resolve locatable = Inl ErrUnresolvable \<longrightarrow>
            HoverAtLocation newHoverVisitor tokenAtLocation resolve filename r l c =
              Inr emptyHover) \<and>
         (\<forall>locatable err. tokenAtLocation v = Inr (Some locatable) \<and>
            resolve locatable = Inl err \<and> err \<noteq> ErrUnresolvable \<longrightarrow>
            HoverAtLocation newHoverVisitor tokenAtLocation resolve filename r l c = Inl err) \<and>
         (\<forall>err. tokenAtLocation v = Inl err \<longrightarrow>
            HoverAtLocation newHoverVisitor tokenAtLocation resolve filename r l c = Inl err)"
  using assms by (simp add: HoverAtLocation_def)

theorem HoverAtLocation_unresolvable_is_empty_witness:
  "HoverAtLocation visitorAt tokenAt resolveToken ''file.jsonnet'' ''{}'' 1 1 = Inr emptyHover \<and>
   HoverAtLocation visitorAt tokenAt resolveToken ''file.jsonnet'' ''{}'' 1 2 = Inr emptyHover \<and>
   HoverAtLocation visitorAt tokenAt resolveToken ''file.jsonnet'' ''{}'' 1 3 =
     Inl (Error ''resolve'') \<and>
   HoverAtLocation visitorAt tokenAt resolveToken ''file.jsonnet'' ''{}'' 1 0 =
     Inl (Error ''find token at position'')"
proof -
  have v: "visitorAt ''file.jsonnet'' ''{}'' \<lparr>Line = 1, Column = 1\<rparr> = Inr 1"
    "visitorAt ''file.jsonnet'' ''{}'' \<lparr>Line = 1, Column = 2\<rparr> = Inr 2"
    "visitorAt ''file.jsonnet'' ''{}'' \<lparr>Line = 1, Column = 3\<rparr> = Inr 3"
    "visitorAt ''file.jsonnet'' ''{}'' \<lparr>Line = 1, Column = 0\<rparr> = Inr 0"
    by (simp_all add: visitorAt_def)
  have t: "tokenAt 1 = Inr None" "tokenAt 2 = Inr (Some 2)" "tokenAt 3 = Inr (Some 3)"
    "tokenAt 0 = Inl (Error ''find token at position'')"
    by (simp_all add: numeral_2_eq_2 numeral_3_eq_3)
  have r: "resolveToken 2 = Inl ErrUnresolvable" "resolveToken 3 = Inl (Error ''resolve'')"
    by (simp_all add: resolveToken_def)
  from HoverAtLocation_unresolvable_is_empty
      [of visitorAt "''file.jsonnet''" "''{}''" 1 1 1 tokenAt resolveToken, OF v(1)]
    HoverAtLocation_unresolvable_is_empty
      [of visitorAt "''file.jsonnet''" "''{}''" 1 2 2 tokenAt resolveToken, OF v(2)]
    HoverAtLocation_unresolvable_is_empty
      [of visitorAt "''file.jsonnet''" "''{}''" 1 3 3 tokenAt resolveToken, OF v(3)]
    HoverAtLocation_unresolvable_is_empty
      [of visitorAt "''file.jsonnet''" "''{}''" 1 0 0 tokenAt resolveToken, OF v(4)]
    t r
  show ?thesis by simp
qed

subsection \<open>Coordinates at the boundary\<close>





subsection \<open>The scope at a position\<close>












lemma TestScope_cases:
  "Keys (LocationScope stdObject localA (New 1 13)) = [''a'', ''std'']"
  "Keys (LocationScope stdObject localNoBody (New 2 1)) = [''a'', ''std'']"
  "Keys (LocationScope stdObject localIncomplete (New 2 11)) = [''o'', ''std'', ''y'']"
  "Keys (LocationScope stdObject localObjectNoBody (New 2 1)) = [''o'', ''std'']"
  "Keys (LocationScope stdObject deepObject (New 1 36)) = [''o'', ''std'']"
  by code_simp+




end
